theory Spec2Isabelle
  imports Complex_Main
begin

section \<open>Colour tables (colors.go)\<close>

text \<open>
  The decoder works on Go values. \<^verbatim>\<open>type Color int\<close> with its twelve \<^verbatim>\<open>iota\<close>
  constants is modelled as \<open>int\<close> with twelve named constants, so that a lookup of a
  value outside the table behaves as Go's map lookup does (zero value, \<open>exists = false\<close>).
  \<^verbatim>\<open>float64\<close> quantities are modelled as exact rationals: every table entry is a decimal
  fraction and every comparison of the code is against 0, 10, 1000, 10^6 or 10^9. Where a
  product has a fractional factor the code's value is the rounded one; the statement that
  the raw picofarads are exactly the product of base and multiplier is therefore made for
  the integer multipliers, where the product is a whole number below 2^53.
\<close>

type_synonym Color = int

definition ColorBlack :: Color where "ColorBlack = 0"
definition ColorBrown :: Color where "ColorBrown = 1"
definition ColorRed :: Color where "ColorRed = 2"
definition ColorOrange :: Color where "ColorOrange = 3"
definition ColorYellow :: Color where "ColorYellow = 4"
definition ColorGreen :: Color where "ColorGreen = 5"
definition ColorBlue :: Color where "ColorBlue = 6"
definition ColorViolet :: Color where "ColorViolet = 7"
definition ColorGrey :: Color where "ColorGrey = 8"
definition ColorWhite :: Color where "ColorWhite = 9"
definition ColorGold :: Color where "ColorGold = 10"
definition ColorSilver :: Color where "ColorSilver = 11"

text \<open>The twelve declared colours, in the order of the \<^verbatim>\<open>const\<close> block.\<close>

definition Colors :: "Color list" where
  "Colors = [ColorBlack, ColorBrown, ColorRed, ColorOrange, ColorYellow, ColorGreen,
             ColorBlue, ColorViolet, ColorGrey, ColorWhite, ColorGold, ColorSilver]"

record ColorInfo =
  Name :: string
  Digit :: int
  Multiplier :: rat
  HexColor :: string
  ValidDigit :: bool
  ValidMult :: bool
  ValidTol :: bool

text \<open>Go's zero value of the struct, which a map lookup yields for a missing key.\<close>

definition zeroColorInfo :: ColorInfo where
  "zeroColorInfo = \<lparr>Name = [], Digit = 0, Multiplier = 0, HexColor = [],
                     ValidDigit = False, ValidMult = False, ValidTol = False\<rparr>"

definition colorMap :: "Color \<rightharpoonup> ColorInfo" where
  "colorMap = map_of
    [(ColorBlack, \<lparr>Name = ''Black'', Digit = 0, Multiplier = 1, HexColor = ''#000000'',
        ValidDigit = True, ValidMult = True, ValidTol = True\<rparr>),
     (ColorBrown, \<lparr>Name = ''Brown'', Digit = 1, Multiplier = 10, HexColor = ''#8B4513'',
        ValidDigit = True, ValidMult = True, ValidTol = True\<rparr>),
     (ColorRed, \<lparr>Name = ''Red'', Digit = 2, Multiplier = 100, HexColor = ''#FF0000'',
        ValidDigit = True, ValidMult = True, ValidTol = True\<rparr>),
     (ColorOrange, \<lparr>Name = ''Orange'', Digit = 3, Multiplier = 1000, HexColor = ''#FF8C00'',
        ValidDigit = True, ValidMult = True, ValidTol = True\<rparr>),
     (ColorYellow, \<lparr>Name = ''Yellow'', Digit = 4, Multiplier = 10000, HexColor = ''#FFFF00'',
        ValidDigit = True, ValidMult = True, ValidTol = True\<rparr>),
     (ColorGreen, \<lparr>Name = ''Green'', Digit = 5, Multiplier = 100000, HexColor = ''#00FF00'',
        ValidDigit = True, ValidMult = True, ValidTol = True\<rparr>),
     (ColorBlue, \<lparr>Name = ''Blue'', Digit = 6, Multiplier = 1000000, HexColor = ''#0000FF'',
        ValidDigit = True, ValidMult = True, ValidTol = False\<rparr>),
     (ColorViolet, \<lparr>Name = ''Violet'', Digit = 7, Multiplier = 10000000, HexColor = ''#9400D3'',
        ValidDigit = True, ValidMult = True, ValidTol = False\<rparr>),
     (ColorGrey, \<lparr>Name = ''Grey'', Digit = 8, Multiplier = 1 / 100, HexColor = ''#808080'',
        ValidDigit = True, ValidMult = True, ValidTol = True\<rparr>),
     (ColorWhite, \<lparr>Name = ''White'', Digit = 9, Multiplier = 1 / 10, HexColor = ''#FFFFFF'',
        ValidDigit = True, ValidMult = True, ValidTol = True\<rparr>),
     (ColorGold, \<lparr>Name = ''Gold'', Digit = - 1, Multiplier = 1 / 10, HexColor = ''#FFD700'',
        ValidDigit = False, ValidMult = True, ValidTol = True\<rparr>),
     (ColorSilver, \<lparr>Name = ''Silver'', Digit = - 1, Multiplier = 1 / 100, HexColor = ''#C0C0C0'',
        ValidDigit = False, ValidMult = True, ValidTol = True\<rparr>)]"

record ToleranceInfo =
  PercentHigh :: rat
  PercentLow :: rat
  Symmetric :: bool
  AbsolutePF :: rat

definition zeroToleranceInfo :: ToleranceInfo where
  "zeroToleranceInfo = \<lparr>PercentHigh = 0, PercentLow = 0, Symmetric = False, AbsolutePF = 0\<rparr>"

definition toleranceMap :: "Color \<rightharpoonup> ToleranceInfo" where
  "toleranceMap = map_of
    [(ColorBlack, \<lparr>PercentHigh = 20, PercentLow = 20, Symmetric = True, AbsolutePF = 0\<rparr>),
     (ColorBrown, \<lparr>PercentHigh = 1, PercentLow = 1, Symmetric = True, AbsolutePF = 1 / 10\<rparr>),
     (ColorRed, \<lparr>PercentHigh = 2, PercentLow = 2, Symmetric = True, AbsolutePF = 25 / 100\<rparr>),
     (ColorOrange, \<lparr>PercentHigh = 3, PercentLow = 3, Symmetric = True, AbsolutePF = 0\<rparr>),
     (ColorYellow, \<lparr>PercentHigh = 4, PercentLow = 4, Symmetric = True, AbsolutePF = 0\<rparr>),
     (ColorGreen, \<lparr>PercentHigh = 5, PercentLow = 5, Symmetric = True, AbsolutePF = 5 / 10\<rparr>),
     (ColorGold, \<lparr>PercentHigh = 5, PercentLow = 5, Symmetric = True, AbsolutePF = 0\<rparr>),
     (ColorWhite, \<lparr>PercentHigh = 10, PercentLow = 10, Symmetric = True, AbsolutePF = 1\<rparr>),
     (ColorSilver, \<lparr>PercentHigh = 10, PercentLow = 10, Symmetric = True, AbsolutePF = 0\<rparr>),
     (ColorGrey, \<lparr>PercentHigh = 80, PercentLow = 20, Symmetric = False, AbsolutePF = 0\<rparr>)]"

definition temperatureCoefficientMap :: "Color \<rightharpoonup> int" where
  "temperatureCoefficientMap = map_of
    [(ColorBrown, - 33), (ColorRed, - 75), (ColorOrange, - 150), (ColorYellow, - 220),
     (ColorGreen, - 330), (ColorBlue, - 470), (ColorViolet, - 750)]"

subsection \<open>Parsing a colour name\<close>

text \<open>
  \<^verbatim>\<open>strings.TrimSpace\<close> and \<^verbatim>\<open>strings.ToLower\<close> on ASCII text: a string is a list of
  bytes, white space is tab, line feed, vertical tab, form feed, carriage return and space,
  and lower-casing moves \<open>A\<close>..\<open>Z\<close> by 32. On a text whose bytes are all below 128 this
  is what the two Go functions do. On other texts Go decodes UTF-8 runes, trims Unicode
  white space and lower-cases Unicode letters, which these definitions do not follow (they
  leave bytes above 127 as they are); so every statement below about the parsing of an
  arbitrary text is made for ASCII texts only.
\<close>

definition isSpace :: "char \<Rightarrow> bool" where
  "isSpace c = ((of_char c :: nat) = 9 \<or> (of_char c :: nat) = 10 \<or> (of_char c :: nat) = 11 \<or>
                (of_char c :: nat) = 12 \<or> (of_char c :: nat) = 13 \<or> (of_char c :: nat) = 32)"

definition TrimSpace :: "string \<Rightarrow> string" where
  "TrimSpace s = rev (dropWhile isSpace (rev (dropWhile isSpace s)))"

definition toLowerChar :: "char \<Rightarrow> char" where
  "toLowerChar c =
     (if 65 \<le> (of_char c :: nat) \<and> (of_char c :: nat) \<le> 90
      then char_of ((of_char c :: nat) + 32) else c)"

definition ToLower :: "string \<Rightarrow> string" where
  "ToLower s = map toLowerChar s"

definition colorNameMap :: "string \<rightharpoonup> Color" where
  "colorNameMap = map_of
    [(''black'', ColorBlack), (''brown'', ColorBrown), (''red'', ColorRed),
     (''orange'', ColorOrange), (''yellow'', ColorYellow), (''green'', ColorGreen),
     (''blue'', ColorBlue), (''violet'', ColorViolet), (''grey'', ColorGrey),
     (''gray'', ColorGrey), (''white'', ColorWhite), (''gold'', ColorGold),
     (''silver'', ColorSilver)]"

text \<open>
  \<^verbatim>\<open>color, exists := colorNameMap[input]\<close>: a missing key gives the zero \<^verbatim>\<open>Color\<close>
  together with \<open>exists = False\<close>.
\<close>

definition ParseColor :: "string \<Rightarrow> Color \<times> bool" where
  "ParseColor input =
     (case colorNameMap (ToLower (TrimSpace input)) of
        Some color \<Rightarrow> (color, True)
      | None \<Rightarrow> (0, False))"

definition GetColorInfo :: "Color \<Rightarrow> ColorInfo" where
  "GetColorInfo c = (case colorMap c of Some info \<Rightarrow> info | None \<Rightarrow> zeroColorInfo)"

definition GetToleranceInfo :: "Color \<Rightarrow> ToleranceInfo \<times> bool" where
  "GetToleranceInfo c =
     (case toleranceMap c of Some info \<Rightarrow> (info, True) | None \<Rightarrow> (zeroToleranceInfo, False))"

definition GetTempCoefficient :: "Color \<Rightarrow> int \<times> bool" where
  "GetTempCoefficient c =
     (case temperatureCoefficientMap c of Some coeff \<Rightarrow> (coeff, True) | None \<Rightarrow> (0, False))"

definition AllColorNames :: "string list" where
  "AllColorNames = [''Black'', ''Brown'', ''Red'', ''Orange'', ''Yellow'', ''Green'',
                    ''Blue'', ''Violet'', ''Grey'', ''White'', ''Gold'', ''Silver'']"

section \<open>Capacitor types and voltage ratings (types.go)\<close>

type_synonym CapacitorType = string

definition TypeJ :: CapacitorType where "TypeJ = ''J''"
definition TypeK :: CapacitorType where "TypeK = ''K''"
definition TypeL :: CapacitorType where "TypeL = ''L''"
definition TypeM :: CapacitorType where "TypeM = ''M''"
definition TypeN :: CapacitorType where "TypeN = ''N''"

record TypeInfo =
  Type :: CapacitorType
  Name :: string
  Description :: string
  Voltages :: "int list"

definition typeInfoMap :: "CapacitorType \<rightharpoonup> TypeInfo" where
  "typeInfoMap = map_of
    [(TypeJ, \<lparr>Type = TypeJ, Name = ''Dipped Tantalum'',
        Description = ''Type J (Dipped Tantalum)'',
        Voltages = [3, 4, 6, 10, 15, 20, 25, 35, 50]\<rparr>),
     (TypeK, \<lparr>Type = TypeK, Name = ''Mica'',
        Description = ''Type K (Mica)'',
        Voltages = [100, 200, 300, 400, 500, 600, 700, 800, 900, 1000, 2000]\<rparr>),
     (TypeL, \<lparr>Type = TypeL, Name = ''Polyester / Polystyrene'',
        Description = ''Type L (Polyester / Polystyrene)'',
        Voltages = [100, 250, 400, 630]\<rparr>),
     (TypeM, \<lparr>Type = TypeM, Name = ''Electrolytic (4-band style)'',
        Description = ''Type M (Electrolytic 4-Band)'',
        Voltages = [0, 2, 4, 6, 10, 16, 25, 40]\<rparr>),
     (TypeN, \<lparr>Type = TypeN, Name = ''Electrolytic (3-band style)'',
        Description = ''Type N (Electrolytic 3-Band)'',
        Voltages = [3, 6, 0, 10, 15, 20, 25, 35]\<rparr>)]"

text \<open>The map literal local to \<^verbatim>\<open>GetVoltageRatingFractional\<close> (type M).\<close>

definition voltageMap :: "int \<rightharpoonup> rat" where
  "voltageMap = map_of
    [(0, 0), (1, 16 / 10), (2, 25 / 10), (3, 4), (4, 63 / 10), (5, 10), (6, 16),
     (7, 25), (8, 40)]"

definition GetVoltageRatingFractional :: "CapacitorType \<Rightarrow> Color \<Rightarrow> rat \<times> bool" where
  "GetVoltageRatingFractional capType band5Color =
     (case typeInfoMap capType of
        None \<Rightarrow> (0, False)
      | Some typeInfo \<Rightarrow>
          (let colorInfo = GetColorInfo band5Color in
           if Digit colorInfo < 0 then (0, False)
           else if capType = TypeM then
             (case voltageMap (Digit colorInfo) of
                Some v \<Rightarrow> if v > 0 then (v, True) else (0, False)
              | None \<Rightarrow> (0, False))
           else if capType = TypeN \<and> Digit colorInfo = 2 then (63 / 10, True)
           else if Digit colorInfo \<ge> int (length (Voltages typeInfo)) then (0, False)
           else
             (let voltage = Voltages typeInfo ! nat (Digit colorInfo) in
              if voltage = 0 then (0, False) else (of_int voltage, True))))"

definition GetTypeInfo :: "CapacitorType \<Rightarrow> TypeInfo \<times> bool" where
  "GetTypeInfo capType =
     (case typeInfoMap capType of
        Some info \<Rightarrow> (info, True)
      | None \<Rightarrow> (\<lparr>Type = [], Name = [], Description = [], Voltages = []\<rparr>, False))"

section \<open>Capacitor calculation (calculator.go)\<close>

record CapacitorReading =
  Band1 :: Color
  Band2 :: Color
  Band3 :: Color
  Band4 :: Color
  Band5 :: Color
  BandCount :: int
  CapType :: CapacitorType

record CalculationResult =
  CapacitancePF :: rat
  CapacitanceValue :: rat
  CapacitanceUnit :: string
  ToleranceType :: string
  TolerancePercent :: rat
  ToleranceAbsolutePF :: rat
  ToleranceSymmetric :: bool
  ToleranceHigh :: rat
  ToleranceLow :: rat
  MinValue :: rat
  MaxValue :: rat
  MinUnit :: string
  MaxUnit :: string
  VoltageRating :: rat
  VoltageValid :: bool
  TempCoefficient :: int
  TempCoeffValid :: bool
  Reading :: CapacitorReading

text \<open>
  The errors of the two calculation functions. The Go code builds them with
  \<^verbatim>\<open>fmt.Errorf\<close>; each constructor stands for the messages of one kind:
  \<^item> \<open>InvalidDigit\<close>: "invalid digit colors for bands 1 or 2" and
    "invalid digit colors for bands 1, 2, or 3";
  \<^item> \<open>InvalidMultiplier\<close>: "invalid multiplier color for band 3" and
    "invalid multiplier color";
  \<^item> \<open>InvalidTolerance\<close>: "invalid tolerance color for band 4" and
    "invalid tolerance color";
  \<^item> \<open>InvalidBandCount n\<close>: "invalid band count: n (must be 4, 5, or 6)".
\<close>

datatype error = InvalidDigit | InvalidMultiplier | InvalidTolerance | InvalidBandCount int

text \<open>The unit strings; the micro sign is the two bytes of its UTF-8 encoding.\<close>

definition unit_pF :: string where "unit_pF = ''pF''"
definition unit_nF :: string where "unit_nF = ''nF''"
definition unit_uF :: string where "unit_uF = [CHR 0xC2, CHR 0xB5, CHR ''F'']"
definition unit_mF :: string where "unit_mF = ''mF''"

definition scaleCapacitance :: "rat \<Rightarrow> rat \<times> string" where
  "scaleCapacitance pF =
     (if pF \<ge> 1000000000 then (pF / 1000000000, unit_mF)
      else if pF \<ge> 1000000 then (pF / 1000000, unit_uF)
      else if pF \<ge> 1000 then (pF / 1000, unit_nF)
      else (pF, unit_pF))"

text \<open>
  \<^verbatim>\<open>calculateTolerance\<close> updates the result through a pointer and returns an error;
  the model returns the updated result, or the error (raised before any field is written).
\<close>

definition calculateTolerance :: "CalculationResult \<Rightarrow> error + CalculationResult" where
  "calculateTolerance result0 =
     (case GetToleranceInfo (Band4 (Reading result0)) of
        (tolInfo, exists) \<Rightarrow>
          if \<not> exists then Inl InvalidTolerance
          else
            (let result1 = result0\<lparr>ToleranceSymmetric := Symmetric tolInfo,
                                    ToleranceHigh := PercentHigh tolInfo,
                                    ToleranceLow := PercentLow tolInfo\<rparr>;
                 result2 =
                   (if CapacitancePF result1 \<le> 10 then
                      (let r = result1\<lparr>ToleranceType := ''absolute'',
                                        ToleranceAbsolutePF := AbsolutePF tolInfo\<rparr> in
                       if AbsolutePF tolInfo = 0 then
                         r\<lparr>ToleranceType := ''percentage'',
                           TolerancePercent := PercentHigh tolInfo,
                           MinValue := CapacitancePF r * (1 - PercentLow tolInfo / 100),
                           MaxValue := CapacitancePF r * (1 + PercentHigh tolInfo / 100)\<rparr>
                       else
                         (let r' = r\<lparr>MinValue := CapacitancePF r - AbsolutePF tolInfo,
                                       MaxValue := CapacitancePF r + AbsolutePF tolInfo\<rparr> in
                          if MinValue r' < 0 then r'\<lparr>MinValue := 0\<rparr> else r'))
                    else
                      result1\<lparr>ToleranceType := ''percentage'',
                              TolerancePercent := PercentHigh tolInfo,
                              MinValue := CapacitancePF result1 * (1 - PercentLow tolInfo / 100),
                              MaxValue := CapacitancePF result1 * (1 + PercentHigh tolInfo / 100)\<rparr>);
                 result3 = result2\<lparr>MinValue := fst (scaleCapacitance (MinValue result2)),
                                    MinUnit := snd (scaleCapacitance (MinValue result2))\<rparr>;
                 result4 = result3\<lparr>MaxValue := fst (scaleCapacitance (MaxValue result3)),
                                    MaxUnit := snd (scaleCapacitance (MaxValue result3))\<rparr>
             in Inr result4))"

text \<open>The value \<^verbatim>\<open>&CalculationResult{Reading: reading}\<close>: every other field is zero.\<close>

definition newCalculationResult :: "CapacitorReading \<Rightarrow> CalculationResult" where
  "newCalculationResult reading =
     \<lparr>CapacitancePF = 0, CapacitanceValue = 0, CapacitanceUnit = [],
      ToleranceType = [], TolerancePercent = 0, ToleranceAbsolutePF = 0,
      ToleranceSymmetric = False, ToleranceHigh = 0, ToleranceLow = 0,
      MinValue = 0, MaxValue = 0, MinUnit = [], MaxUnit = [],
      VoltageRating = 0, VoltageValid = False,
      TempCoefficient = 0, TempCoeffValid = False,
      Reading = reading\<rparr>"

definition Calculate :: "CapacitorReading \<Rightarrow> error + CalculationResult" where
  "Calculate reading =
     (let result0 = newCalculationResult reading;
          info1 = GetColorInfo (Band1 reading);
          info2 = GetColorInfo (Band2 reading);
          info3 = GetColorInfo (Band3 reading)
      in
      if \<not> ValidDigit info1 \<or> \<not> ValidDigit info2 then Inl InvalidDigit
      else if \<not> ValidMult info3 then Inl InvalidMultiplier
      else
        (let baseValue = (of_int (Digit info1 * 10 + Digit info2) :: rat);
             result1 = result0\<lparr>CapacitancePF := baseValue * Multiplier info3\<rparr>;
             result2 = result1\<lparr>CapacitanceValue := fst (scaleCapacitance (CapacitancePF result1)),
                                CapacitanceUnit := snd (scaleCapacitance (CapacitancePF result1))\<rparr>
         in
         case calculateTolerance result2 of
           Inl err \<Rightarrow> Inl err
         | Inr result3 \<Rightarrow>
             (let result4 =
                    (if BandCount reading \<ge> 4 \<and> Band5 reading \<noteq> ColorBlack then
                       (case GetVoltageRatingFractional (CapType reading) (Band5 reading) of
                          (voltage, valid) \<Rightarrow>
                            result3\<lparr>VoltageRating := voltage, VoltageValid := valid\<rparr>)
                     else result3);
                  result5 =
                    (if BandCount reading = 5 then
                       (case GetTempCoefficient (Band5 reading) of
                          (coeff, valid) \<Rightarrow>
                            result4\<lparr>TempCoefficient := coeff, TempCoeffValid := valid\<rparr>)
                     else result4)
              in Inr result5)))"

section \<open>Resistor calculation (resistor.go)\<close>

record ResistorReading =
  Band1 :: Color
  Band2 :: Color
  Band3 :: Color
  Band4 :: Color
  Band5 :: Color
  Band6 :: Color
  BandCount :: int

record ResistorResult =
  ResistanceOhms :: rat
  ResistanceValue :: rat
  ResistanceUnit :: string
  TolerancePercent :: rat
  MinValue :: rat
  MaxValue :: rat
  MinUnit :: string
  MaxUnit :: string
  TempCoefficient :: int
  TempCoeffValid :: bool
  Reading :: ResistorReading

record ResistorToleranceInfo =
  Percent :: rat
  Name :: string

text \<open>
  The tolerance names carry a plus-minus sign, written here as the two bytes of its UTF-8
  encoding.
\<close>

definition plusMinus :: string where
  "plusMinus = [CHR 0xC2, CHR 0xB1]"

definition resistorToleranceMap :: "Color \<rightharpoonup> ResistorToleranceInfo" where
  "resistorToleranceMap = map_of
    [(ColorBrown, \<lparr>Percent = 1, Name = plusMinus @ ''1% (precision)''\<rparr>),
     (ColorRed, \<lparr>Percent = 2, Name = plusMinus @ ''2% (precision)''\<rparr>),
     (ColorGreen, \<lparr>Percent = 5 / 10, Name = plusMinus @ ''0.5% (high precision)''\<rparr>),
     (ColorBlue, \<lparr>Percent = 25 / 100, Name = plusMinus @ ''0.25% (high precision)''\<rparr>),
     (ColorViolet, \<lparr>Percent = 1 / 10, Name = plusMinus @ ''0.1% (ultra precision)''\<rparr>),
     (ColorGrey, \<lparr>Percent = 5 / 100, Name = plusMinus @ ''0.05% (ultra precision)''\<rparr>),
     (ColorGold, \<lparr>Percent = 5, Name = plusMinus @ ''5% (standard)''\<rparr>),
     (ColorSilver, \<lparr>Percent = 10, Name = plusMinus @ ''10% (standard)''\<rparr>)]"

definition resistorTempCoefficientMap :: "Color \<rightharpoonup> int" where
  "resistorTempCoefficientMap = map_of
    [(ColorBlack, 250), (ColorBrown, 100), (ColorRed, 50), (ColorOrange, 15),
     (ColorYellow, 25), (ColorGreen, 20), (ColorBlue, 10), (ColorViolet, 5),
     (ColorGrey, 1)]"

definition resistorMultiplierMap :: "Color \<rightharpoonup> rat" where
  "resistorMultiplierMap = map_of
    [(ColorBlack, 1), (ColorBrown, 10), (ColorRed, 100), (ColorOrange, 1000),
     (ColorYellow, 10000), (ColorGreen, 100000), (ColorBlue, 1000000),
     (ColorViolet, 10000000), (ColorGrey, 100000000), (ColorWhite, 1000000000),
     (ColorGold, 1 / 10), (ColorSilver, 1 / 100)]"

definition GetResistorMultiplier :: "Color \<Rightarrow> rat \<times> bool" where
  "GetResistorMultiplier c =
     (case resistorMultiplierMap c of Some mult \<Rightarrow> (mult, True) | None \<Rightarrow> (0, False))"

definition GetResistorTolerance :: "Color \<Rightarrow> ResistorToleranceInfo \<times> bool" where
  "GetResistorTolerance c =
     (case resistorToleranceMap c of
        Some info \<Rightarrow> (info, True)
      | None \<Rightarrow> (\<lparr>Percent = 0, Name = []\<rparr>, False))"

definition GetResistorTempCoefficient :: "Color \<Rightarrow> int \<times> bool" where
  "GetResistorTempCoefficient c =
     (case resistorTempCoefficientMap c of Some coeff \<Rightarrow> (coeff, True) | None \<Rightarrow> (0, False))"

text \<open>The resistance units: the letter, if any, and the two bytes of the capital omega.\<close>

definition unit_Ohm :: string where "unit_Ohm = [CHR 0xCE, CHR 0xA9]"
definition unit_kOhm :: string where "unit_kOhm = [CHR ''k'', CHR 0xCE, CHR 0xA9]"
definition unit_MOhm :: string where "unit_MOhm = [CHR ''M'', CHR 0xCE, CHR 0xA9]"
definition unit_GOhm :: string where "unit_GOhm = [CHR ''G'', CHR 0xCE, CHR 0xA9]"

definition scaleResistance :: "rat \<Rightarrow> rat \<times> string" where
  "scaleResistance ohms =
     (if ohms \<ge> 1000000000 then (ohms / 1000000000, unit_GOhm)
      else if ohms \<ge> 1000000 then (ohms / 1000000, unit_MOhm)
      else if ohms \<ge> 1000 then (ohms / 1000, unit_kOhm)
      else (ohms, unit_Ohm))"

text \<open>The value \<^verbatim>\<open>&ResistorResult{Reading: reading}\<close>.\<close>

definition newResistorResult :: "ResistorReading \<Rightarrow> ResistorResult" where
  "newResistorResult reading =
     \<lparr>ResistanceOhms = 0, ResistanceValue = 0, ResistanceUnit = [],
      TolerancePercent = 0, MinValue = 0, MaxValue = 0, MinUnit = [], MaxUnit = [],
      TempCoefficient = 0, TempCoeffValid = False, Reading = reading\<rparr>"

text \<open>
  The \<^verbatim>\<open>switch\<close> on the band count yields the base value, the multiplier colour and the
  result so far (the six-band case has stored the temperature coefficient), or returns
  an error; the rest of the function follows it.
\<close>

definition CalculateResistor :: "ResistorReading \<Rightarrow> error + ResistorResult" where
  "CalculateResistor reading =
     (let result0 = newResistorResult reading;
          info1 = GetColorInfo (Band1 reading);
          info2 = GetColorInfo (Band2 reading);
          info3 = GetColorInfo (Band3 reading)
      in
      case
        (if BandCount reading = 4 then
           (if \<not> ValidDigit info1 \<or> \<not> ValidDigit info2 then Inl InvalidDigit
            else Inr ((of_int (Digit info1 * 10 + Digit info2) :: rat), Band3 reading, result0))
         else if BandCount reading = 5 then
           (if \<not> ValidDigit info1 \<or> \<not> ValidDigit info2 \<or> \<not> ValidDigit info3
            then Inl InvalidDigit
            else Inr ((of_int (Digit info1 * 100 + Digit info2 * 10 + Digit info3) :: rat),
                      Band4 reading, result0))
         else if BandCount reading = 6 then
           (if \<not> ValidDigit info1 \<or> \<not> ValidDigit info2 \<or> \<not> ValidDigit info3
            then Inl InvalidDigit
            else Inr ((of_int (Digit info1 * 100 + Digit info2 * 10 + Digit info3) :: rat),
                      Band4 reading,
                      result0\<lparr>TempCoefficient := fst (GetResistorTempCoefficient (Band6 reading)),
                              TempCoeffValid := snd (GetResistorTempCoefficient (Band6 reading))\<rparr>))
         else Inl (InvalidBandCount (BandCount reading)))
      of
        Inl err \<Rightarrow> Inl err
      | Inr (baseValue, multiplierColor, result1) \<Rightarrow>
          (case GetResistorMultiplier multiplierColor of
             (multiplier, valid) \<Rightarrow>
               if \<not> valid then Inl InvalidMultiplier
               else
                 (let result2 = result1\<lparr>ResistanceOhms := baseValue * multiplier\<rparr>;
                      result3 = result2
                        \<lparr>ResistanceValue := fst (scaleResistance (ResistanceOhms result2)),
                         ResistanceUnit := snd (scaleResistance (ResistanceOhms result2))\<rparr>;
                      toleranceColor =
                        (if BandCount reading \<ge> 5 then Band5 reading else Band4 reading)
                  in
                  case GetResistorTolerance toleranceColor of
                    (tolInfo, exists) \<Rightarrow>
                      if \<not> exists then Inl InvalidTolerance
                      else
                        (let result4 = result3\<lparr>TolerancePercent := Percent tolInfo\<rparr>;
                             result5 = result4
                               \<lparr>MinValue := ResistanceOhms result4 * (1 - Percent tolInfo / 100),
                                MaxValue := ResistanceOhms result4 * (1 + Percent tolInfo / 100)\<rparr>;
                             result6 = result5
                               \<lparr>MinValue := fst (scaleResistance (MinValue result5)),
                                MinUnit := snd (scaleResistance (MinValue result5))\<rparr>;
                             result7 = result6
                               \<lparr>MaxValue := fst (scaleResistance (MaxValue result6)),
                                MaxUnit := snd (scaleResistance (MaxValue result6))\<rparr>
                         in Inr result7))))"

section \<open>Validation (validator.go)\<close>

record ValidationError =
  BandNumber :: int
  Message :: string

text \<open>A validator returns \<open>None\<close> for Go's \<^verbatim>\<open>nil\<close> and \<open>Some e\<close> for an error \<open>e\<close>.\<close>

definition ValidateBand1 :: "Color \<Rightarrow> ValidationError option" where
  "ValidateBand1 color =
     (let info = GetColorInfo color in
      if \<not> ValidDigit info then
        Some \<lparr>BandNumber = 1, Message = ColorInfo.Name info @
          '' is not valid for first digit band (must be Black-White, 0-9)''\<rparr>
      else None)"

definition ValidateBand2 :: "Color \<Rightarrow> ValidationError option" where
  "ValidateBand2 color =
     (let info = GetColorInfo color in
      if \<not> ValidDigit info then
        Some \<lparr>BandNumber = 2, Message = ColorInfo.Name info @
          '' is not valid for second digit band (must be Black-White, 0-9)''\<rparr>
      else None)"

definition ValidateBand3 :: "Color \<Rightarrow> ValidationError option" where
  "ValidateBand3 color =
     (let info = GetColorInfo color in
      if \<not> ValidMult info then
        Some \<lparr>BandNumber = 3, Message = ColorInfo.Name info @
          '' is not valid for multiplier band''\<rparr>
      else None)"

text \<open>The less-or-equal sign of the message, as the three bytes of its UTF-8 encoding.\<close>

definition lessEqualSign :: string where
  "lessEqualSign = [CHR 0xE2, CHR 0x89, CHR 0xA4]"

definition ValidateBand4 :: "Color \<Rightarrow> rat \<Rightarrow> ValidationError option" where
  "ValidateBand4 color capacitancePF =
     (if \<not> snd (GetToleranceInfo color) then
        Some \<lparr>BandNumber = 4, Message = ColorInfo.Name (GetColorInfo color) @
          '' is not valid for tolerance band''\<rparr>
      else
        (let tolInfo = fst (GetToleranceInfo color) in
         if capacitancePF \<le> 10 \<and> AbsolutePF tolInfo = 0 then
           Some \<lparr>BandNumber = 4, Message = ColorInfo.Name (GetColorInfo color) @
             '' tolerance not typically used for capacitors '' @ lessEqualSign @
             ''10pF (use Brown, Red, Green, or White for absolute tolerance)''\<rparr>
         else None))"

definition ValidateBand5 :: "Color \<Rightarrow> CapacitorType \<Rightarrow> int \<Rightarrow> ValidationError option" where
  "ValidateBand5 color capType bandCount =
     (if bandCount < 4 then None
      else
        (let info = GetColorInfo color in
         if bandCount \<ge> 4 \<and> \<not> snd (GetVoltageRatingFractional capType color) then
           Some \<lparr>BandNumber = 5, Message = ColorInfo.Name info @
             '' is not a valid voltage code for '' @
             Description (fst (GetTypeInfo capType)) @ '' capacitors''\<rparr>
         else None))"

definition ValidateReading :: "CapacitorReading \<Rightarrow> ValidationError option" where
  "ValidateReading reading =
     (case ValidateBand1 (CapacitorReading.Band1 reading) of
        Some err \<Rightarrow> Some err
      | None \<Rightarrow>
     (case ValidateBand2 (CapacitorReading.Band2 reading) of
        Some err \<Rightarrow> Some err
      | None \<Rightarrow>
     (case ValidateBand3 (CapacitorReading.Band3 reading) of
        Some err \<Rightarrow> Some err
      | None \<Rightarrow>
        (let info1 = GetColorInfo (CapacitorReading.Band1 reading);
             info2 = GetColorInfo (CapacitorReading.Band2 reading);
             info3 = GetColorInfo (CapacitorReading.Band3 reading);
             capacitancePF = (of_int (Digit info1 * 10 + Digit info2) :: rat) * Multiplier info3
         in
         case ValidateBand4 (CapacitorReading.Band4 reading) capacitancePF of
           Some err \<Rightarrow> Some err
         | None \<Rightarrow>
             if CapacitorReading.BandCount reading \<ge> 4 then
               ValidateBand5 (CapacitorReading.Band5 reading) (CapType reading)
                 (CapacitorReading.BandCount reading)
             else None))))"

text \<open>
  The two band-count validators return a plain \<^verbatim>\<open>fmt.Errorf\<close> error, modelled by its
  message.
\<close>

definition ValidateBandCount :: "int \<Rightarrow> string option" where
  "ValidateBandCount count =
     (if count < 3 \<or> count > 5 then Some ''band count must be 3, 4, or 5'' else None)"

definition ValidateResistorBandCount :: "int \<Rightarrow> string option" where
  "ValidateResistorBandCount count =
     (if count < 4 \<or> count > 6 then Some ''resistor band count must be 4, 5, or 6'' else None)"

definition ValidateResistorMultiplier :: "Color \<Rightarrow> int \<Rightarrow> ValidationError option" where
  "ValidateResistorMultiplier color bandNum =
     (if \<not> snd (GetResistorMultiplier color) then
        Some \<lparr>BandNumber = bandNum, Message = ColorInfo.Name (GetColorInfo color) @
          '' is not valid for multiplier band''\<rparr>
      else None)"

section \<open>The tolerance range as the specification words it\<close>

text \<open>
  Step 5 of the specification's capacitor algorithm, as two predicates on a finished
  result: with an absolute tolerance the range is the raw value minus and plus the
  colour's picofarad value, the lower end floored at 0; with a percentage tolerance it is
  the raw value times (1 - low/100) and (1 + high/100). Step 6 scales each end to its own
  unit. The theorems below compare the code with these.
\<close>

definition absoluteTolerance :: "rat \<Rightarrow> ToleranceInfo \<Rightarrow> CalculationResult \<Rightarrow> bool" where
  "absoluteTolerance raw tol res \<longleftrightarrow>
     ToleranceType res = ''absolute'' \<and>
     ToleranceAbsolutePF res = AbsolutePF tol \<and>
     (CalculationResult.MinValue res, CalculationResult.MinUnit res) =
       scaleCapacitance (if raw - AbsolutePF tol < 0 then 0 else raw - AbsolutePF tol) \<and>
     (CalculationResult.MaxValue res, CalculationResult.MaxUnit res) =
       scaleCapacitance (raw + AbsolutePF tol)"

definition percentageTolerance :: "rat \<Rightarrow> ToleranceInfo \<Rightarrow> CalculationResult \<Rightarrow> bool" where
  "percentageTolerance raw tol res \<longleftrightarrow>
     ToleranceType res = ''percentage'' \<and>
     CalculationResult.TolerancePercent res = PercentHigh tol \<and>
     (CalculationResult.MinValue res, CalculationResult.MinUnit res) =
       scaleCapacitance (raw * (1 - PercentLow tol / 100)) \<and>
     (CalculationResult.MaxValue res, CalculationResult.MaxUnit res) =
       scaleCapacitance (raw * (1 + PercentHigh tol / 100))"

section \<open>Lemmas and theorems\<close>

lemmas Color_defs =
  ColorBlack_def ColorBrown_def ColorRed_def ColorOrange_def ColorYellow_def
  ColorGreen_def ColorBlue_def ColorViolet_def ColorGrey_def ColorWhite_def
  ColorGold_def ColorSilver_def

lemmas Type_defs = TypeJ_def TypeK_def TypeL_def TypeM_def TypeN_def

lemmas unit_defs =
  unit_pF_def unit_nF_def unit_uF_def unit_mF_def
  unit_Ohm_def unit_kOhm_def unit_MOhm_def unit_GOhm_def

subsection \<open>Table lookups\<close>

lemma toleranceMap_cases:
  "toleranceMap c = Some tol \<Longrightarrow>
     (c = ColorBlack \<and> tol = \<lparr>PercentHigh = 20, PercentLow = 20, Symmetric = True, AbsolutePF = 0\<rparr>) \<or>
     (c = ColorBrown \<and> tol = \<lparr>PercentHigh = 1, PercentLow = 1, Symmetric = True, AbsolutePF = 1 / 10\<rparr>) \<or>
     (c = ColorRed \<and> tol = \<lparr>PercentHigh = 2, PercentLow = 2, Symmetric = True, AbsolutePF = 25 / 100\<rparr>) \<or>
     (c = ColorOrange \<and> tol = \<lparr>PercentHigh = 3, PercentLow = 3, Symmetric = True, AbsolutePF = 0\<rparr>) \<or>
     (c = ColorYellow \<and> tol = \<lparr>PercentHigh = 4, PercentLow = 4, Symmetric = True, AbsolutePF = 0\<rparr>) \<or>
     (c = ColorGreen \<and> tol = \<lparr>PercentHigh = 5, PercentLow = 5, Symmetric = True, AbsolutePF = 5 / 10\<rparr>) \<or>
     (c = ColorGold \<and> tol = \<lparr>PercentHigh = 5, PercentLow = 5, Symmetric = True, AbsolutePF = 0\<rparr>) \<or>
     (c = ColorWhite \<and> tol = \<lparr>PercentHigh = 10, PercentLow = 10, Symmetric = True, AbsolutePF = 1\<rparr>) \<or>
     (c = ColorSilver \<and> tol = \<lparr>PercentHigh = 10, PercentLow = 10, Symmetric = True, AbsolutePF = 0\<rparr>) \<or>
     (c = ColorGrey \<and> tol = \<lparr>PercentHigh = 80, PercentLow = 20, Symmetric = False, AbsolutePF = 0\<rparr>)"
  by (auto simp: toleranceMap_def Color_defs split: if_splits)

lemma GetToleranceInfo_Some:
  "toleranceMap c = Some tol \<Longrightarrow> GetToleranceInfo c = (tol, True)"
  by (simp add: GetToleranceInfo_def)

lemma GetToleranceInfo_None:
  "toleranceMap c = None \<Longrightarrow> GetToleranceInfo c = (zeroToleranceInfo, False)"
  by (simp add: GetToleranceInfo_def)

subsection \<open>The capacitor calculation, step by step\<close>

lemma calculateTolerance_missing:
  "toleranceMap (CapacitorReading.Band4 (CalculationResult.Reading res)) = None \<Longrightarrow>
   calculateTolerance res = Inl InvalidTolerance"
  by (simp add: calculateTolerance_def GetToleranceInfo_None)

lemma calculateTolerance_found:
  assumes "toleranceMap (CapacitorReading.Band4 (CalculationResult.Reading res)) = Some tol"
  shows "\<exists>res'. calculateTolerance res = Inr res' \<and>
     CalculationResult.Reading res' = CalculationResult.Reading res \<and>
     CapacitancePF res' = CapacitancePF res \<and>
     CapacitanceValue res' = CapacitanceValue res \<and>
     CapacitanceUnit res' = CapacitanceUnit res \<and>
     VoltageRating res' = VoltageRating res \<and>
     VoltageValid res' = VoltageValid res \<and>
     CalculationResult.TempCoefficient res' = CalculationResult.TempCoefficient res \<and>
     CalculationResult.TempCoeffValid res' = CalculationResult.TempCoeffValid res \<and>
     ToleranceSymmetric res' = Symmetric tol \<and>
     ToleranceHigh res' = PercentHigh tol \<and>
     ToleranceLow res' = PercentLow tol \<and>
     (if CapacitancePF res \<le> 10 \<and> AbsolutePF tol \<noteq> 0 then
        ToleranceType res' = ''absolute'' \<and>
        ToleranceAbsolutePF res' = AbsolutePF tol \<and>
        (CalculationResult.MinValue res', CalculationResult.MinUnit res') =
          scaleCapacitance (if CapacitancePF res - AbsolutePF tol < 0 then 0
                            else CapacitancePF res - AbsolutePF tol) \<and>
        (CalculationResult.MaxValue res', CalculationResult.MaxUnit res') =
          scaleCapacitance (CapacitancePF res + AbsolutePF tol)
      else
        ToleranceType res' = ''percentage'' \<and>
        CalculationResult.TolerancePercent res' = PercentHigh tol \<and>
        (CalculationResult.MinValue res', CalculationResult.MinUnit res') =
          scaleCapacitance (CapacitancePF res * (1 - PercentLow tol / 100)) \<and>
        (CalculationResult.MaxValue res', CalculationResult.MaxUnit res') =
          scaleCapacitance (CapacitancePF res * (1 + PercentHigh tol / 100)))"
  using assms by (simp add: calculateTolerance_def Let_def GetToleranceInfo_Some)

lemma Calculate_invalid_digit:
  "\<not> ValidDigit (GetColorInfo (CapacitorReading.Band1 r)) \<or>
   \<not> ValidDigit (GetColorInfo (CapacitorReading.Band2 r)) \<Longrightarrow>
   Calculate r = Inl InvalidDigit"
  unfolding Calculate_def Let_def by (simp only: if_True)

lemma Calculate_invalid_multiplier:
  "ValidDigit (GetColorInfo (CapacitorReading.Band1 r)) \<Longrightarrow>
   ValidDigit (GetColorInfo (CapacitorReading.Band2 r)) \<Longrightarrow>
   \<not> ValidMult (GetColorInfo (CapacitorReading.Band3 r)) \<Longrightarrow>
   Calculate r = Inl InvalidMultiplier"
  unfolding Calculate_def Let_def by simp

lemma Calculate_valid_bands:
  assumes "ValidDigit (GetColorInfo (CapacitorReading.Band1 r))"
    and "ValidDigit (GetColorInfo (CapacitorReading.Band2 r))"
    and "ValidMult (GetColorInfo (CapacitorReading.Band3 r))"
  shows "\<exists>res2.
     CalculationResult.Reading res2 = r \<and>
     CapacitancePF res2 =
       of_int (Digit (GetColorInfo (CapacitorReading.Band1 r)) * 10 +
               Digit (GetColorInfo (CapacitorReading.Band2 r))) *
       Multiplier (GetColorInfo (CapacitorReading.Band3 r)) \<and>
     CapacitanceValue res2 = fst (scaleCapacitance (CapacitancePF res2)) \<and>
     CapacitanceUnit res2 = snd (scaleCapacitance (CapacitancePF res2)) \<and>
     VoltageRating res2 = 0 \<and> \<not> VoltageValid res2 \<and>
     CalculationResult.TempCoefficient res2 = 0 \<and> \<not> CalculationResult.TempCoeffValid res2 \<and>
     Calculate r =
       (case calculateTolerance res2 of
          Inl err \<Rightarrow> Inl err
        | Inr res3 \<Rightarrow>
            Inr ((if CapacitorReading.BandCount r = 5 then
                    (\<lambda>x. x\<lparr>CalculationResult.TempCoefficient :=
                              fst (GetTempCoefficient (CapacitorReading.Band5 r)),
                            CalculationResult.TempCoeffValid :=
                              snd (GetTempCoefficient (CapacitorReading.Band5 r))\<rparr>)
                  else (\<lambda>x. x))
                 ((if CapacitorReading.BandCount r \<ge> 4 \<and> CapacitorReading.Band5 r \<noteq> ColorBlack
                   then (\<lambda>x. x\<lparr>VoltageRating :=
                      fst (GetVoltageRatingFractional (CapType r) (CapacitorReading.Band5 r)),
                      VoltageValid :=
                      snd (GetVoltageRatingFractional (CapType r) (CapacitorReading.Band5 r))\<rparr>)
                   else (\<lambda>x. x)) res3)))"
  apply (rule exI [where x = "(newCalculationResult r)
      \<lparr>CapacitancePF := of_int (Digit (GetColorInfo (CapacitorReading.Band1 r)) * 10 +
               Digit (GetColorInfo (CapacitorReading.Band2 r))) *
       Multiplier (GetColorInfo (CapacitorReading.Band3 r)),
       CapacitanceValue := fst (scaleCapacitance (of_int (Digit (GetColorInfo (CapacitorReading.Band1 r)) * 10 +
               Digit (GetColorInfo (CapacitorReading.Band2 r))) *
       Multiplier (GetColorInfo (CapacitorReading.Band3 r)))),
       CapacitanceUnit := snd (scaleCapacitance (of_int (Digit (GetColorInfo (CapacitorReading.Band1 r)) * 10 +
               Digit (GetColorInfo (CapacitorReading.Band2 r))) *
       Multiplier (GetColorInfo (CapacitorReading.Band3 r))))\<rparr>"])
  using assms
  apply (simp add: Calculate_def Let_def newCalculationResult_def case_prod_beta
      split: sum.splits)
  done

lemma Calculate_success:
  assumes "ValidDigit (GetColorInfo (CapacitorReading.Band1 r))"
    and "ValidDigit (GetColorInfo (CapacitorReading.Band2 r))"
    and "ValidMult (GetColorInfo (CapacitorReading.Band3 r))"
    and "toleranceMap (CapacitorReading.Band4 r) = Some tol"
  shows "\<exists>res. Calculate r = Inr res \<and>
     CalculationResult.Reading res = r \<and>
     CapacitancePF res =
       of_int (Digit (GetColorInfo (CapacitorReading.Band1 r)) * 10 +
               Digit (GetColorInfo (CapacitorReading.Band2 r))) *
       Multiplier (GetColorInfo (CapacitorReading.Band3 r)) \<and>
     (CapacitanceValue res, CapacitanceUnit res) = scaleCapacitance (CapacitancePF res) \<and>
     ToleranceSymmetric res = Symmetric tol \<and>
     ToleranceHigh res = PercentHigh tol \<and>
     ToleranceLow res = PercentLow tol \<and>
     (if CapacitancePF res \<le> 10 \<and> AbsolutePF tol \<noteq> 0 then
        ToleranceType res = ''absolute'' \<and>
        ToleranceAbsolutePF res = AbsolutePF tol \<and>
        (CalculationResult.MinValue res, CalculationResult.MinUnit res) =
          scaleCapacitance (if CapacitancePF res - AbsolutePF tol < 0 then 0
                            else CapacitancePF res - AbsolutePF tol) \<and>
        (CalculationResult.MaxValue res, CalculationResult.MaxUnit res) =
          scaleCapacitance (CapacitancePF res + AbsolutePF tol)
      else
        ToleranceType res = ''percentage'' \<and>
        CalculationResult.TolerancePercent res = PercentHigh tol \<and>
        (CalculationResult.MinValue res, CalculationResult.MinUnit res) =
          scaleCapacitance (CapacitancePF res * (1 - PercentLow tol / 100)) \<and>
        (CalculationResult.MaxValue res, CalculationResult.MaxUnit res) =
          scaleCapacitance (CapacitancePF res * (1 + PercentHigh tol / 100))) \<and>
     (VoltageRating res, VoltageValid res) =
       (if CapacitorReading.BandCount r \<ge> 4 \<and> CapacitorReading.Band5 r \<noteq> ColorBlack
        then GetVoltageRatingFractional (CapType r) (CapacitorReading.Band5 r)
        else (0, False)) \<and>
     (CalculationResult.TempCoefficient res, CalculationResult.TempCoeffValid res) =
       (if CapacitorReading.BandCount r = 5 then GetTempCoefficient (CapacitorReading.Band5 r)
        else (0, False))"
proof -
  from Calculate_valid_bands [OF assms(1-3)] obtain res2 where
    r2: "CalculationResult.Reading res2 = r"
      "CapacitancePF res2 =
         of_int (Digit (GetColorInfo (CapacitorReading.Band1 r)) * 10 +
                 Digit (GetColorInfo (CapacitorReading.Band2 r))) *
         Multiplier (GetColorInfo (CapacitorReading.Band3 r))"
      "CapacitanceValue res2 = fst (scaleCapacitance (CapacitancePF res2))"
      "CapacitanceUnit res2 = snd (scaleCapacitance (CapacitancePF res2))"
      "VoltageRating res2 = 0" "\<not> VoltageValid res2"
      "CalculationResult.TempCoefficient res2 = 0" "\<not> CalculationResult.TempCoeffValid res2"
    and calc: "Calculate r =
       (case calculateTolerance res2 of
          Inl err \<Rightarrow> Inl err
        | Inr res3 \<Rightarrow>
            Inr ((if CapacitorReading.BandCount r = 5 then
                    (\<lambda>x. x\<lparr>CalculationResult.TempCoefficient :=
                              fst (GetTempCoefficient (CapacitorReading.Band5 r)),
                            CalculationResult.TempCoeffValid :=
                              snd (GetTempCoefficient (CapacitorReading.Band5 r))\<rparr>)
                  else (\<lambda>x. x))
                 ((if CapacitorReading.BandCount r \<ge> 4 \<and> CapacitorReading.Band5 r \<noteq> ColorBlack
                   then (\<lambda>x. x\<lparr>VoltageRating :=
                      fst (GetVoltageRatingFractional (CapType r) (CapacitorReading.Band5 r)),
                      VoltageValid :=
                      snd (GetVoltageRatingFractional (CapType r) (CapacitorReading.Band5 r))\<rparr>)
                   else (\<lambda>x. x)) res3)))"
    by blast
  from assms(4) r2(1)
  have "toleranceMap (CapacitorReading.Band4 (CalculationResult.Reading res2)) = Some tol"
    by simp
  from calculateTolerance_found [OF this] obtain res3 where
    t: "calculateTolerance res2 = Inr res3" and
    r3: "CalculationResult.Reading res3 = CalculationResult.Reading res2"
      "CapacitancePF res3 = CapacitancePF res2"
      "CapacitanceValue res3 = CapacitanceValue res2"
      "CapacitanceUnit res3 = CapacitanceUnit res2"
      "VoltageRating res3 = VoltageRating res2"
      "VoltageValid res3 = VoltageValid res2"
      "CalculationResult.TempCoefficient res3 = CalculationResult.TempCoefficient res2"
      "CalculationResult.TempCoeffValid res3 = CalculationResult.TempCoeffValid res2"
      "ToleranceSymmetric res3 = Symmetric tol"
      "ToleranceHigh res3 = PercentHigh tol"
      "ToleranceLow res3 = PercentLow tol" and
    tb: "(if CapacitancePF res2 \<le> 10 \<and> AbsolutePF tol \<noteq> 0 then
        ToleranceType res3 = ''absolute'' \<and>
        ToleranceAbsolutePF res3 = AbsolutePF tol \<and>
        (CalculationResult.MinValue res3, CalculationResult.MinUnit res3) =
          scaleCapacitance (if CapacitancePF res2 - AbsolutePF tol < 0 then 0
                            else CapacitancePF res2 - AbsolutePF tol) \<and>
        (CalculationResult.MaxValue res3, CalculationResult.MaxUnit res3) =
          scaleCapacitance (CapacitancePF res2 + AbsolutePF tol)
      else
        ToleranceType res3 = ''percentage'' \<and>
        CalculationResult.TolerancePercent res3 = PercentHigh tol \<and>
        (CalculationResult.MinValue res3, CalculationResult.MinUnit res3) =
          scaleCapacitance (CapacitancePF res2 * (1 - PercentLow tol / 100)) \<and>
        (CalculationResult.MaxValue res3, CalculationResult.MaxUnit res3) =
          scaleCapacitance (CapacitancePF res2 * (1 + PercentHigh tol / 100)))"
    by blast
  define res where "res =
     (if CapacitorReading.BandCount r = 5 then
        (\<lambda>x. x\<lparr>CalculationResult.TempCoefficient :=
                  fst (GetTempCoefficient (CapacitorReading.Band5 r)),
                CalculationResult.TempCoeffValid :=
                  snd (GetTempCoefficient (CapacitorReading.Band5 r))\<rparr>)
      else (\<lambda>x. x))
     ((if CapacitorReading.BandCount r \<ge> 4 \<and> CapacitorReading.Band5 r \<noteq> ColorBlack
       then (\<lambda>x. x\<lparr>VoltageRating :=
          fst (GetVoltageRatingFractional (CapType r) (CapacitorReading.Band5 r)),
          VoltageValid :=
          snd (GetVoltageRatingFractional (CapType r) (CapacitorReading.Band5 r))\<rparr>)
       else (\<lambda>x. x)) res3)"
  have c: "Calculate r = Inr res"
    by (simp only: calc t res_def sum.case)
  have frame:
    "CalculationResult.Reading res = CalculationResult.Reading res3"
    "CapacitancePF res = CapacitancePF res3"
    "CapacitanceValue res = CapacitanceValue res3"
    "CapacitanceUnit res = CapacitanceUnit res3"
    "ToleranceSymmetric res = ToleranceSymmetric res3"
    "ToleranceHigh res = ToleranceHigh res3"
    "ToleranceLow res = ToleranceLow res3"
    "ToleranceType res = ToleranceType res3"
    "ToleranceAbsolutePF res = ToleranceAbsolutePF res3"
    "CalculationResult.TolerancePercent res = CalculationResult.TolerancePercent res3"
    "CalculationResult.MinValue res = CalculationResult.MinValue res3"
    "CalculationResult.MinUnit res = CalculationResult.MinUnit res3"
    "CalculationResult.MaxValue res = CalculationResult.MaxValue res3"
    "CalculationResult.MaxUnit res = CalculationResult.MaxUnit res3"
    by (simp_all add: res_def)
  have volt: "(VoltageRating res, VoltageValid res) =
       (if CapacitorReading.BandCount r \<ge> 4 \<and> CapacitorReading.Band5 r \<noteq> ColorBlack
        then GetVoltageRatingFractional (CapType r) (CapacitorReading.Band5 r)
        else (0, False))"
    using r2(5,6) r3(5,6) by (simp add: res_def)
  have temp: "(CalculationResult.TempCoefficient res, CalculationResult.TempCoeffValid res) =
       (if CapacitorReading.BandCount r = 5 then GetTempCoefficient (CapacitorReading.Band5 r)
        else (0, False))"
    using r2(7,8) r3(7,8) by (simp add: res_def)
  have raw: "CapacitancePF res = CapacitancePF res2"
    by (simp add: frame r3)
  have tb': "(if CapacitancePF res \<le> 10 \<and> AbsolutePF tol \<noteq> 0 then
        ToleranceType res = ''absolute'' \<and>
        ToleranceAbsolutePF res = AbsolutePF tol \<and>
        (CalculationResult.MinValue res, CalculationResult.MinUnit res) =
          scaleCapacitance (if CapacitancePF res - AbsolutePF tol < 0 then 0
                            else CapacitancePF res - AbsolutePF tol) \<and>
        (CalculationResult.MaxValue res, CalculationResult.MaxUnit res) =
          scaleCapacitance (CapacitancePF res + AbsolutePF tol)
      else
        ToleranceType res = ''percentage'' \<and>
        CalculationResult.TolerancePercent res = PercentHigh tol \<and>
        (CalculationResult.MinValue res, CalculationResult.MinUnit res) =
          scaleCapacitance (CapacitancePF res * (1 - PercentLow tol / 100)) \<and>
        (CalculationResult.MaxValue res, CalculationResult.MaxUnit res) =
          scaleCapacitance (CapacitancePF res * (1 + PercentHigh tol / 100)))"
    using tb by (simp only: frame r3(2))
  have scaled: "(CapacitanceValue res, CapacitanceUnit res) = scaleCapacitance (CapacitancePF res)"
    by (simp add: frame r3 r2(3,4))
  show ?thesis
    apply (rule exI [where x = res])
    apply (intro conjI)
             apply (rule c)
            apply (simp add: frame r3 r2(1))
           apply (simp add: frame r3 r2(2))
          apply (rule scaled)
         apply (simp add: frame r3)
        apply (simp add: frame r3)
       apply (simp add: frame r3)
      apply (rule tb')
     apply (rule volt)
    apply (rule temp)
    done
qed

lemma Calculate_invalid_tolerance:
  assumes "ValidDigit (GetColorInfo (CapacitorReading.Band1 r))"
    and "ValidDigit (GetColorInfo (CapacitorReading.Band2 r))"
    and "ValidMult (GetColorInfo (CapacitorReading.Band3 r))"
    and "toleranceMap (CapacitorReading.Band4 r) = None"
  shows "Calculate r = Inl InvalidTolerance"
proof -
  from Calculate_valid_bands [OF assms(1-3)] obtain res2 where
    rd: "CalculationResult.Reading res2 = r" and
    calc: "Calculate r =
       (case calculateTolerance res2 of
          Inl err \<Rightarrow> Inl err
        | Inr res3 \<Rightarrow>
            Inr ((if CapacitorReading.BandCount r = 5 then
                    (\<lambda>x. x\<lparr>CalculationResult.TempCoefficient :=
                              fst (GetTempCoefficient (CapacitorReading.Band5 r)),
                            CalculationResult.TempCoeffValid :=
                              snd (GetTempCoefficient (CapacitorReading.Band5 r))\<rparr>)
                  else (\<lambda>x. x))
                 ((if CapacitorReading.BandCount r \<ge> 4 \<and> CapacitorReading.Band5 r \<noteq> ColorBlack
                   then (\<lambda>x. x\<lparr>VoltageRating :=
                      fst (GetVoltageRatingFractional (CapType r) (CapacitorReading.Band5 r)),
                      VoltageValid :=
                      snd (GetVoltageRatingFractional (CapType r) (CapacitorReading.Band5 r))\<rparr>)
                   else (\<lambda>x. x)) res3)))"
    by blast
  from assms(4) rd
  have "toleranceMap (CapacitorReading.Band4 (CalculationResult.Reading res2)) = None"
    by simp
  from calculateTolerance_missing [OF this] calc show ?thesis
    by simp
qed

text \<open>The outcome of the capacitor calculation, by the four checks in their order.\<close>

lemma Calculate_outcome:
  "(if \<not> ValidDigit (GetColorInfo (CapacitorReading.Band1 r)) \<or>
       \<not> ValidDigit (GetColorInfo (CapacitorReading.Band2 r))
    then Calculate r = Inl InvalidDigit
    else if \<not> ValidMult (GetColorInfo (CapacitorReading.Band3 r))
    then Calculate r = Inl InvalidMultiplier
    else if toleranceMap (CapacitorReading.Band4 r) = None
    then Calculate r = Inl InvalidTolerance
    else \<exists>out. Calculate r = Inr out)"
proof (cases "\<not> ValidDigit (GetColorInfo (CapacitorReading.Band1 r)) \<or>
       \<not> ValidDigit (GetColorInfo (CapacitorReading.Band2 r))")
  case True
  then show ?thesis using Calculate_invalid_digit [of r] by simp
next
  case d: False
  show ?thesis
  proof (cases "ValidMult (GetColorInfo (CapacitorReading.Band3 r))")
    case False
    with d show ?thesis using Calculate_invalid_multiplier [of r] by simp
  next
    case m: True
    show ?thesis
    proof (cases "toleranceMap (CapacitorReading.Band4 r)")
      case None
      with d m show ?thesis using Calculate_invalid_tolerance [of r] by simp
    next
      case (Some tol)
      with d m Calculate_success [of r tol] show ?thesis by auto
    qed
  qed
qed

lemma Calculate_Inr_valid:
  assumes "Calculate r = Inr out"
  shows "ValidDigit (GetColorInfo (CapacitorReading.Band1 r)) \<and>
     ValidDigit (GetColorInfo (CapacitorReading.Band2 r)) \<and>
     ValidMult (GetColorInfo (CapacitorReading.Band3 r)) \<and>
     (\<exists>tol. toleranceMap (CapacitorReading.Band4 r) = Some tol)"
  using Calculate_outcome [of r] assms by (auto split: if_splits)

lemma Calculate_Inl_iff:
  "Calculate r = Inl e \<longleftrightarrow>
     (if \<not> ValidDigit (GetColorInfo (CapacitorReading.Band1 r)) \<or>
         \<not> ValidDigit (GetColorInfo (CapacitorReading.Band2 r))
      then e = InvalidDigit
      else if \<not> ValidMult (GetColorInfo (CapacitorReading.Band3 r))
      then e = InvalidMultiplier
      else toleranceMap (CapacitorReading.Band4 r) = None \<and> e = InvalidTolerance)"
  using Calculate_outcome [of r] by (auto split: if_splits)

lemma Calculate_Inr_voltage:
  assumes "Calculate r = Inr out"
  shows "(VoltageRating out, VoltageValid out) =
       (if CapacitorReading.BandCount r \<ge> 4 \<and> CapacitorReading.Band5 r \<noteq> ColorBlack
        then GetVoltageRatingFractional (CapType r) (CapacitorReading.Band5 r)
        else (0, False))"
proof -
  from Calculate_Inr_valid [OF assms] obtain tol where
    v: "ValidDigit (GetColorInfo (CapacitorReading.Band1 r))"
       "ValidDigit (GetColorInfo (CapacitorReading.Band2 r))"
       "ValidMult (GetColorInfo (CapacitorReading.Band3 r))"
       "toleranceMap (CapacitorReading.Band4 r) = Some tol"
    by blast
  from Calculate_success [OF v] assms show ?thesis
    by auto
qed

subsection \<open>Unit scaling\<close>

text \<open>
  Claim C7. Unit auto-scaling switches exactly at 1000, 10^6 and 10^9: a capacitance below
  1000 pF stays in pF, from 1000 up to (not including) 10^6 it is shown in nF, from 10^6 up
  to (not including) 10^9 in microfarad, and from 10^9 on in mF; resistance does the same
  over ohm, kilo-ohm, mega-ohm and giga-ohm. So 999 stays in the base unit, 1000 is 1 of the
  next unit, 999999 stays there and 1000000 is 1 of the unit after it; the four unit
  strings of each kind are pairwise different.
\<close>

theorem scale_thresholds:
  "scaleCapacitance x =
     (if x < 1000 then (x, unit_pF)
      else if x < 1000000 then (x / 1000, unit_nF)
      else if x < 1000000000 then (x / 1000000, unit_uF)
      else (x / 1000000000, unit_mF)) \<and>
   scaleResistance x =
     (if x < 1000 then (x, unit_Ohm)
      else if x < 1000000 then (x / 1000, unit_kOhm)
      else if x < 1000000000 then (x / 1000000, unit_MOhm)
      else (x / 1000000000, unit_GOhm)) \<and>
   scaleCapacitance 999 = (999, unit_pF) \<and>
   scaleCapacitance 1000 = (1, unit_nF) \<and>
   scaleCapacitance 999999 = (999999 / 1000, unit_nF) \<and>
   scaleCapacitance 1000000 = (1, unit_uF) \<and>
   scaleCapacitance 999999999 = (999999999 / 1000000, unit_uF) \<and>
   scaleCapacitance 1000000000 = (1, unit_mF) \<and>
   scaleResistance 999 = (999, unit_Ohm) \<and>
   scaleResistance 1000 = (1, unit_kOhm) \<and>
   scaleResistance 999999 = (999999 / 1000, unit_kOhm) \<and>
   scaleResistance 1000000 = (1, unit_MOhm) \<and>
   scaleResistance 999999999 = (999999999 / 1000000, unit_MOhm) \<and>
   scaleResistance 1000000000 = (1, unit_GOhm) \<and>
   distinct [unit_pF, unit_nF, unit_uF, unit_mF] \<and>
   distinct [unit_Ohm, unit_kOhm, unit_MOhm, unit_GOhm]"
  by (simp add: scaleCapacitance_def scaleResistance_def unit_defs)

theorem scale_thresholds_witness:
  "scaleCapacitance 27000 = (27, unit_nF) \<and> scaleResistance 4700 = (47 / 10, unit_kOhm)"
  using scale_thresholds [of 27000] scale_thresholds [of 4700] by simp

subsection \<open>Tolerance of a capacitor\<close>

lemma calculateTolerance_branches:
  assumes "toleranceMap (CapacitorReading.Band4 (CalculationResult.Reading res)) = Some tol"
  shows "\<exists>res'. calculateTolerance res = Inr res' \<and>
     (if CapacitancePF res \<le> 10 \<and> AbsolutePF tol \<noteq> 0
      then absoluteTolerance (CapacitancePF res) tol res'
      else percentageTolerance (CapacitancePF res) tol res') \<and>
     ToleranceSymmetric res' = Symmetric tol \<and>
     ToleranceHigh res' = PercentHigh tol \<and>
     ToleranceLow res' = PercentLow tol"
  using calculateTolerance_found [OF assms]
  unfolding absoluteTolerance_def percentageTolerance_def by blast

lemma Calculate_branches:
  assumes "ValidDigit (GetColorInfo (CapacitorReading.Band1 r))"
    and "ValidDigit (GetColorInfo (CapacitorReading.Band2 r))"
    and "ValidMult (GetColorInfo (CapacitorReading.Band3 r))"
    and "toleranceMap (CapacitorReading.Band4 r) = Some tol"
  shows "\<exists>out. Calculate r = Inr out \<and>
     CapacitancePF out =
       of_int (Digit (GetColorInfo (CapacitorReading.Band1 r)) * 10 +
               Digit (GetColorInfo (CapacitorReading.Band2 r))) *
       Multiplier (GetColorInfo (CapacitorReading.Band3 r)) \<and>
     (if CapacitancePF out \<le> 10 \<and> AbsolutePF tol \<noteq> 0
      then absoluteTolerance (CapacitancePF out) tol out
      else percentageTolerance (CapacitancePF out) tol out) \<and>
     ToleranceSymmetric out = Symmetric tol \<and>
     ToleranceHigh out = PercentHigh tol \<and>
     ToleranceLow out = PercentLow tol"
  using Calculate_success [OF assms]
  unfolding absoluteTolerance_def percentageTolerance_def by blast

text \<open>
  Claim C1. For a result whose band-4 colour is in the capacitor tolerance table, the
  tolerance step succeeds and selects its branch by the raw picofarads and the colour's
  absolute value: raw at most 10 with a non-zero absolute value (exactly Brown, Red, Green,
  White) gives the absolute range raw -/+ absolute, the lower end floored at 0; raw at most
  10 with no absolute value (Black, Orange, Yellow, Gold, Silver, and also Grey) falls back
  to the percentage range raw * (1 -/+ percent / 100); raw above 10 always gives the
  percentage range. Raw 10 with Brown is absolute 0.1 pF with range 9.9 to 10.1 pF, raw 10
  with Orange is 3 percent, raw 10.01 with Brown is 1 percent. The decode function, on a
  reading it accepts up to band 3, returns a result in the branch so selected.
\<close>

theorem tolerance_branch_selection:
  assumes "toleranceMap (CapacitorReading.Band4 (CalculationResult.Reading res)) = Some tol"
  shows "\<exists>res'. calculateTolerance res = Inr res' \<and>
     (AbsolutePF tol \<noteq> 0 \<longleftrightarrow>
        CapacitorReading.Band4 (CalculationResult.Reading res) \<in>
          set [ColorBrown, ColorRed, ColorGreen, ColorWhite]) \<and>
     (AbsolutePF tol = 0 \<longleftrightarrow>
        CapacitorReading.Band4 (CalculationResult.Reading res) \<in>
          set [ColorBlack, ColorOrange, ColorYellow, ColorGold, ColorSilver, ColorGrey]) \<and>
     (CapacitancePF res \<le> 10 \<and> AbsolutePF tol \<noteq> 0 \<longrightarrow>
        absoluteTolerance (CapacitancePF res) tol res') \<and>
     (CapacitancePF res \<le> 10 \<and> AbsolutePF tol = 0 \<longrightarrow>
        percentageTolerance (CapacitancePF res) tol res') \<and>
     (CapacitancePF res > 10 \<longrightarrow>
        percentageTolerance (CapacitancePF res) tol res') \<and>
     (CapacitancePF res = 10 \<and>
      CapacitorReading.Band4 (CalculationResult.Reading res) = ColorBrown \<longrightarrow>
        ToleranceType res' = ''absolute'' \<and> ToleranceAbsolutePF res' = 1 / 10 \<and>
        (CalculationResult.MinValue res', CalculationResult.MinUnit res') = (99 / 10, unit_pF) \<and>
        (CalculationResult.MaxValue res', CalculationResult.MaxUnit res') = (101 / 10, unit_pF)) \<and>
     (CapacitancePF res = 10 \<and>
      CapacitorReading.Band4 (CalculationResult.Reading res) = ColorOrange \<longrightarrow>
        ToleranceType res' = ''percentage'' \<and> CalculationResult.TolerancePercent res' = 3 \<and>
        (CalculationResult.MinValue res', CalculationResult.MinUnit res') = (97 / 10, unit_pF) \<and>
        (CalculationResult.MaxValue res', CalculationResult.MaxUnit res') = (103 / 10, unit_pF)) \<and>
     (CapacitancePF res = 1001 / 100 \<and>
      CapacitorReading.Band4 (CalculationResult.Reading res) = ColorBrown \<longrightarrow>
        ToleranceType res' = ''percentage'' \<and> CalculationResult.TolerancePercent res' = 1 \<and>
        (CalculationResult.MinValue res', CalculationResult.MinUnit res') =
          (99099 / 10000, unit_pF) \<and>
        (CalculationResult.MaxValue res', CalculationResult.MaxUnit res') =
          (101101 / 10000, unit_pF)) \<and>
     (ValidDigit (GetColorInfo (CapacitorReading.Band1 (CalculationResult.Reading res))) \<and>
      ValidDigit (GetColorInfo (CapacitorReading.Band2 (CalculationResult.Reading res))) \<and>
      ValidMult (GetColorInfo (CapacitorReading.Band3 (CalculationResult.Reading res))) \<longrightarrow>
        (\<exists>out. Calculate (CalculationResult.Reading res) = Inr out \<and>
           (if CapacitancePF out \<le> 10 \<and> AbsolutePF tol \<noteq> 0
            then absoluteTolerance (CapacitancePF out) tol out
            else percentageTolerance (CapacitancePF out) tol out)))"
proof -
  from calculateTolerance_branches [OF assms] obtain res' where
    ok: "calculateTolerance res = Inr res'" and
    branch: "if CapacitancePF res \<le> 10 \<and> AbsolutePF tol \<noteq> 0
      then absoluteTolerance (CapacitancePF res) tol res'
      else percentageTolerance (CapacitancePF res) tol res'"
    by blast
  note cases = toleranceMap_cases [OF assms]
  have abs_colours: "AbsolutePF tol \<noteq> 0 \<longleftrightarrow>
        CapacitorReading.Band4 (CalculationResult.Reading res) \<in>
          set [ColorBrown, ColorRed, ColorGreen, ColorWhite]"
    using cases by (auto simp: Color_defs)
  have pct_colours: "AbsolutePF tol = 0 \<longleftrightarrow>
        CapacitorReading.Band4 (CalculationResult.Reading res) \<in>
          set [ColorBlack, ColorOrange, ColorYellow, ColorGold, ColorSilver, ColorGrey]"
    using cases by (auto simp: Color_defs)
  have brown: "CapacitorReading.Band4 (CalculationResult.Reading res) = ColorBrown \<Longrightarrow>
      tol = \<lparr>PercentHigh = 1, PercentLow = 1, Symmetric = True, AbsolutePF = 1 / 10\<rparr>"
    using cases by (auto simp: Color_defs)
  have orange: "CapacitorReading.Band4 (CalculationResult.Reading res) = ColorOrange \<Longrightarrow>
      tol = \<lparr>PercentHigh = 3, PercentLow = 3, Symmetric = True, AbsolutePF = 0\<rparr>"
    using cases by (auto simp: Color_defs)
  have small_abs: "CapacitancePF res \<le> 10 \<and> AbsolutePF tol \<noteq> 0 \<longrightarrow>
        absoluteTolerance (CapacitancePF res) tol res'"
    using branch by (simp split: if_splits)
  have small_pct: "CapacitancePF res \<le> 10 \<and> AbsolutePF tol = 0 \<longrightarrow>
        percentageTolerance (CapacitancePF res) tol res'"
    using branch by (simp split: if_splits)
  have large: "CapacitancePF res > 10 \<longrightarrow>
        percentageTolerance (CapacitancePF res) tol res'"
    using branch by (simp split: if_splits)
  have ex1: "CapacitancePF res = 10 \<and>
      CapacitorReading.Band4 (CalculationResult.Reading res) = ColorBrown \<longrightarrow>
        ToleranceType res' = ''absolute'' \<and> ToleranceAbsolutePF res' = 1 / 10 \<and>
        (CalculationResult.MinValue res', CalculationResult.MinUnit res') = (99 / 10, unit_pF) \<and>
        (CalculationResult.MaxValue res', CalculationResult.MaxUnit res') = (101 / 10, unit_pF)"
    using small_abs brown by (auto simp: absoluteTolerance_def scaleCapacitance_def)
  have ex2: "CapacitancePF res = 10 \<and>
      CapacitorReading.Band4 (CalculationResult.Reading res) = ColorOrange \<longrightarrow>
        ToleranceType res' = ''percentage'' \<and> CalculationResult.TolerancePercent res' = 3 \<and>
        (CalculationResult.MinValue res', CalculationResult.MinUnit res') = (97 / 10, unit_pF) \<and>
        (CalculationResult.MaxValue res', CalculationResult.MaxUnit res') = (103 / 10, unit_pF)"
    using small_pct orange by (auto simp: percentageTolerance_def scaleCapacitance_def)
  have ex3: "CapacitancePF res = 1001 / 100 \<and>
      CapacitorReading.Band4 (CalculationResult.Reading res) = ColorBrown \<longrightarrow>
        ToleranceType res' = ''percentage'' \<and> CalculationResult.TolerancePercent res' = 1 \<and>
        (CalculationResult.MinValue res', CalculationResult.MinUnit res') =
          (99099 / 10000, unit_pF) \<and>
        (CalculationResult.MaxValue res', CalculationResult.MaxUnit res') =
          (101101 / 10000, unit_pF)"
    using large brown by (auto simp: percentageTolerance_def scaleCapacitance_def)
  have decode:
    "ValidDigit (GetColorInfo (CapacitorReading.Band1 (CalculationResult.Reading res))) \<and>
     ValidDigit (GetColorInfo (CapacitorReading.Band2 (CalculationResult.Reading res))) \<and>
     ValidMult (GetColorInfo (CapacitorReading.Band3 (CalculationResult.Reading res))) \<longrightarrow>
        (\<exists>out. Calculate (CalculationResult.Reading res) = Inr out \<and>
           (if CapacitancePF out \<le> 10 \<and> AbsolutePF tol \<noteq> 0
            then absoluteTolerance (CapacitancePF out) tol out
            else percentageTolerance (CapacitancePF out) tol out))"
    using Calculate_branches [OF _ _ _ assms] by blast
  show ?thesis
    apply (rule exI [where x = res'])
    apply (intro conjI)
            apply (rule ok)
           apply (rule abs_colours)
          apply (rule pct_colours)
         apply (rule small_abs)
        apply (rule small_pct)
       apply (rule large)
      apply (rule ex1)
     apply (rule ex2)
    apply (rule ex3)
    apply (rule decode)
    done
qed

theorem tolerance_branch_selection_witness:
  "\<exists>res'. calculateTolerance
      ((newCalculationResult
         \<lparr>CapacitorReading.Band1 = ColorBrown, Band2 = ColorBlack, Band3 = ColorBlack,
          Band4 = ColorBrown, Band5 = ColorBlack, BandCount = 4, CapType = TypeK\<rparr>)
       \<lparr>CapacitancePF := 10\<rparr>) = Inr res' \<and>
     ToleranceType res' = ''absolute'' \<and> ToleranceAbsolutePF res' = 1 / 10 \<and>
     (CalculationResult.MinValue res', CalculationResult.MinUnit res') = (99 / 10, unit_pF) \<and>
     (CalculationResult.MaxValue res', CalculationResult.MaxUnit res') = (101 / 10, unit_pF)"
proof -
  let ?res = "(newCalculationResult
         \<lparr>CapacitorReading.Band1 = ColorBrown, Band2 = ColorBlack, Band3 = ColorBlack,
          Band4 = ColorBrown, Band5 = ColorBlack, BandCount = 4, CapType = TypeK\<rparr>)
       \<lparr>CapacitancePF := 10\<rparr>"
  have h: "toleranceMap (CapacitorReading.Band4 (CalculationResult.Reading ?res)) =
     Some \<lparr>PercentHigh = 1, PercentLow = 1, Symmetric = True, AbsolutePF = 1 / 10\<rparr>"
    by (simp add: newCalculationResult_def toleranceMap_def Color_defs)
  have raw: "CapacitancePF ?res = 10"
    by (simp add: newCalculationResult_def)
  have b4: "CapacitorReading.Band4 (CalculationResult.Reading ?res) = ColorBrown"
    by (simp add: newCalculationResult_def)
  from tolerance_branch_selection [OF h] obtain res' where
    "calculateTolerance ?res = Inr res'" and
    "CapacitancePF ?res = 10 \<and>
      CapacitorReading.Band4 (CalculationResult.Reading ?res) = ColorBrown \<longrightarrow>
        ToleranceType res' = ''absolute'' \<and> ToleranceAbsolutePF res' = 1 / 10 \<and>
        (CalculationResult.MinValue res', CalculationResult.MinUnit res') = (99 / 10, unit_pF) \<and>
        (CalculationResult.MaxValue res', CalculationResult.MaxUnit res') = (101 / 10, unit_pF)"
    by (elim exE conjE)
  with raw b4 show ?thesis
    by (intro exI [where x = res']) simp
qed

subsection \<open>The resistor calculation\<close>

lemma GetResistorMultiplier_Some:
  "resistorMultiplierMap c = Some m \<Longrightarrow> GetResistorMultiplier c = (m, True)"
  by (simp add: GetResistorMultiplier_def)

lemma GetResistorTolerance_Some:
  "resistorToleranceMap c = Some t \<Longrightarrow> GetResistorTolerance c = (t, True)"
  by (simp add: GetResistorTolerance_def)

lemma CalculateResistor_band_count:
  "ResistorReading.BandCount r \<noteq> 4 \<Longrightarrow> ResistorReading.BandCount r \<noteq> 5 \<Longrightarrow>
   ResistorReading.BandCount r \<noteq> 6 \<Longrightarrow>
   CalculateResistor r = Inl (InvalidBandCount (ResistorReading.BandCount r))"
  by (simp add: CalculateResistor_def Let_def)

lemma CalculateResistor_Inr:
  assumes "CalculateResistor r = Inr out"
  shows "(ResistorResult.MinValue out, ResistorResult.MinUnit out) =
       scaleResistance (ResistanceOhms out * (1 - ResistorResult.TolerancePercent out / 100)) \<and>
     (ResistorResult.MaxValue out, ResistorResult.MaxUnit out) =
       scaleResistance (ResistanceOhms out * (1 + ResistorResult.TolerancePercent out / 100))"
  using assms
  by (auto simp: CalculateResistor_def Let_def case_prod_beta split: if_splits sum.splits)


lemma CalculateResistor_success:
  assumes bc: "ResistorReading.BandCount r = 4 \<or> ResistorReading.BandCount r = 5 \<or>
               ResistorReading.BandCount r = 6"
    and d1: "ValidDigit (GetColorInfo (ResistorReading.Band1 r))"
    and d2: "ValidDigit (GetColorInfo (ResistorReading.Band2 r))"
    and d3: "ResistorReading.BandCount r = 4 \<or> ValidDigit (GetColorInfo (ResistorReading.Band3 r))"
    and m: "resistorMultiplierMap
              (if ResistorReading.BandCount r = 4 then ResistorReading.Band3 r
               else ResistorReading.Band4 r) = Some mult"
    and t: "resistorToleranceMap
              (if ResistorReading.BandCount r = 4 then ResistorReading.Band4 r
               else ResistorReading.Band5 r) = Some tol"
  shows "\<exists>out. CalculateResistor r = Inr out \<and>
     ResistorResult.Reading out = r \<and>
     ResistanceOhms out =
       (if ResistorReading.BandCount r = 4
        then of_int (Digit (GetColorInfo (ResistorReading.Band1 r)) * 10 +
                     Digit (GetColorInfo (ResistorReading.Band2 r)))
        else of_int (Digit (GetColorInfo (ResistorReading.Band1 r)) * 100 +
                     Digit (GetColorInfo (ResistorReading.Band2 r)) * 10 +
                     Digit (GetColorInfo (ResistorReading.Band3 r)))) * mult \<and>
     (ResistanceValue out, ResistanceUnit out) = scaleResistance (ResistanceOhms out) \<and>
     ResistorResult.TolerancePercent out = Percent tol \<and>
     (ResistorResult.MinValue out, ResistorResult.MinUnit out) =
       scaleResistance (ResistanceOhms out * (1 - Percent tol / 100)) \<and>
     (ResistorResult.MaxValue out, ResistorResult.MaxUnit out) =
       scaleResistance (ResistanceOhms out * (1 + Percent tol / 100)) \<and>
     (ResistorResult.TempCoefficient out, ResistorResult.TempCoeffValid out) =
       (if ResistorReading.BandCount r = 6
        then GetResistorTempCoefficient (ResistorReading.Band6 r) else (0, False))"
proof -
  consider "ResistorReading.BandCount r = 4" | "ResistorReading.BandCount r = 5"
    | "ResistorReading.BandCount r = 6"
    using bc by blast
  then show ?thesis
  proof cases
    case 1
    with d1 d2 m t show ?thesis
      by (simp add: CalculateResistor_def Let_def GetResistorMultiplier_Some
          GetResistorTolerance_Some newResistorResult_def)
  next
    case 2
    with d1 d2 d3 m t show ?thesis
      by (simp add: CalculateResistor_def Let_def GetResistorMultiplier_Some
          GetResistorTolerance_Some newResistorResult_def)
  next
    case 3
    with d1 d2 d3 m t show ?thesis
      by (simp add: CalculateResistor_def Let_def GetResistorMultiplier_Some
          GetResistorTolerance_Some newResistorResult_def)
  qed
qed


subsection \<open>Symmetry of the tolerance\<close>

text \<open>
  Claim C3. Grey is the only asymmetric capacitor tolerance colour, +80 percent and -20
  percent: with band 4 Grey and raw picofarads above 10 the range runs from raw * 0.8 to
  raw * 1.8 (each end then scaled to its unit), so raw 1000 pF gives 800 pF and 1800 pF,
  the latter shown as 1.8 nF. Every other colour of the capacitor tolerance table is
  symmetric, with equal high and low percentages. A resistor result always has the
  symmetric range ohms * (1 -/+ percent / 100) for its single tolerance percentage.
\<close>

theorem grey_only_asymmetric:
  "toleranceMap ColorGrey =
     Some \<lparr>PercentHigh = 80, PercentLow = 20, Symmetric = False, AbsolutePF = 0\<rparr> \<and>
   (toleranceMap c = Some tol \<and> c \<noteq> ColorGrey \<longrightarrow>
      Symmetric tol \<and> PercentHigh tol = PercentLow tol) \<and>
   (CapacitorReading.Band4 (CalculationResult.Reading res) = ColorGrey \<and>
    CapacitancePF res > 10 \<longrightarrow>
      (\<exists>res'. calculateTolerance res = Inr res' \<and>
         \<not> ToleranceSymmetric res' \<and> ToleranceHigh res' = 80 \<and> ToleranceLow res' = 20 \<and>
         ToleranceType res' = ''percentage'' \<and>
         (CalculationResult.MinValue res', CalculationResult.MinUnit res') =
           scaleCapacitance (CapacitancePF res * (8 / 10)) \<and>
         (CalculationResult.MaxValue res', CalculationResult.MaxUnit res') =
           scaleCapacitance (CapacitancePF res * (18 / 10)))) \<and>
   scaleCapacitance (1000 * (8 / 10)) = (800, unit_pF) \<and>
   scaleCapacitance (1000 * (18 / 10)) = (18 / 10, unit_nF) \<and>
   (ValidDigit (GetColorInfo (CapacitorReading.Band1 r)) \<and>
    ValidDigit (GetColorInfo (CapacitorReading.Band2 r)) \<and>
    ValidMult (GetColorInfo (CapacitorReading.Band3 r)) \<and>
    CapacitorReading.Band4 r = ColorGrey \<longrightarrow>
      (\<exists>out. Calculate r = Inr out \<and>
         \<not> ToleranceSymmetric out \<and> ToleranceHigh out = 80 \<and> ToleranceLow out = 20 \<and>
         (CapacitancePF out > 10 \<longrightarrow>
            (CalculationResult.MinValue out, CalculationResult.MinUnit out) =
              scaleCapacitance (CapacitancePF out * (8 / 10)) \<and>
            (CalculationResult.MaxValue out, CalculationResult.MaxUnit out) =
              scaleCapacitance (CapacitancePF out * (18 / 10))))) \<and>
   (CalculateResistor rr = Inr ro \<longrightarrow>
      (ResistorResult.MinValue ro, ResistorResult.MinUnit ro) =
        scaleResistance (ResistanceOhms ro * (1 - ResistorResult.TolerancePercent ro / 100)) \<and>
      (ResistorResult.MaxValue ro, ResistorResult.MaxUnit ro) =
        scaleResistance (ResistanceOhms ro * (1 + ResistorResult.TolerancePercent ro / 100)))"
proof -
  have grey: "toleranceMap ColorGrey =
     Some \<lparr>PercentHigh = 80, PercentLow = 20, Symmetric = False, AbsolutePF = 0\<rparr>"
    by (simp add: toleranceMap_def Color_defs)
  have others: "toleranceMap c = Some tol \<and> c \<noteq> ColorGrey \<longrightarrow>
      Symmetric tol \<and> PercentHigh tol = PercentLow tol"
    using toleranceMap_cases [of c tol] by auto
  have step: "CapacitorReading.Band4 (CalculationResult.Reading res) = ColorGrey \<and>
    CapacitancePF res > 10 \<longrightarrow>
      (\<exists>res'. calculateTolerance res = Inr res' \<and>
         \<not> ToleranceSymmetric res' \<and> ToleranceHigh res' = 80 \<and> ToleranceLow res' = 20 \<and>
         ToleranceType res' = ''percentage'' \<and>
         (CalculationResult.MinValue res', CalculationResult.MinUnit res') =
           scaleCapacitance (CapacitancePF res * (8 / 10)) \<and>
         (CalculationResult.MaxValue res', CalculationResult.MaxUnit res') =
           scaleCapacitance (CapacitancePF res * (18 / 10)))"
  proof
    assume a: "CapacitorReading.Band4 (CalculationResult.Reading res) = ColorGrey \<and>
      CapacitancePF res > 10"
    then have "toleranceMap (CapacitorReading.Band4 (CalculationResult.Reading res)) =
      Some \<lparr>PercentHigh = 80, PercentLow = 20, Symmetric = False, AbsolutePF = 0\<rparr>"
      using grey by simp
    from calculateTolerance_branches [OF this] a show "\<exists>res'. calculateTolerance res = Inr res' \<and>
         \<not> ToleranceSymmetric res' \<and> ToleranceHigh res' = 80 \<and> ToleranceLow res' = 20 \<and>
         ToleranceType res' = ''percentage'' \<and>
         (CalculationResult.MinValue res', CalculationResult.MinUnit res') =
           scaleCapacitance (CapacitancePF res * (8 / 10)) \<and>
         (CalculationResult.MaxValue res', CalculationResult.MaxUnit res') =
           scaleCapacitance (CapacitancePF res * (18 / 10))"
      by (auto simp: percentageTolerance_def)
  qed
  have ex_min: "scaleCapacitance (1000 * (8 / 10)) = (800, unit_pF)"
    by (simp add: scaleCapacitance_def)
  have ex_max: "scaleCapacitance (1000 * (18 / 10)) = (18 / 10, unit_nF)"
    by (simp add: scaleCapacitance_def)
  have decode: "ValidDigit (GetColorInfo (CapacitorReading.Band1 r)) \<and>
    ValidDigit (GetColorInfo (CapacitorReading.Band2 r)) \<and>
    ValidMult (GetColorInfo (CapacitorReading.Band3 r)) \<and>
    CapacitorReading.Band4 r = ColorGrey \<longrightarrow>
      (\<exists>out. Calculate r = Inr out \<and>
         \<not> ToleranceSymmetric out \<and> ToleranceHigh out = 80 \<and> ToleranceLow out = 20 \<and>
         (CapacitancePF out > 10 \<longrightarrow>
            (CalculationResult.MinValue out, CalculationResult.MinUnit out) =
              scaleCapacitance (CapacitancePF out * (8 / 10)) \<and>
            (CalculationResult.MaxValue out, CalculationResult.MaxUnit out) =
              scaleCapacitance (CapacitancePF out * (18 / 10))))"
  proof
    assume a: "ValidDigit (GetColorInfo (CapacitorReading.Band1 r)) \<and>
      ValidDigit (GetColorInfo (CapacitorReading.Band2 r)) \<and>
      ValidMult (GetColorInfo (CapacitorReading.Band3 r)) \<and>
      CapacitorReading.Band4 r = ColorGrey"
    then have g: "toleranceMap (CapacitorReading.Band4 r) =
      Some \<lparr>PercentHigh = 80, PercentLow = 20, Symmetric = False, AbsolutePF = 0\<rparr>"
      using grey by simp
    from a have v: "ValidDigit (GetColorInfo (CapacitorReading.Band1 r))"
      "ValidDigit (GetColorInfo (CapacitorReading.Band2 r))"
      "ValidMult (GetColorInfo (CapacitorReading.Band3 r))"
      by simp_all
    from Calculate_branches [OF v g] show "\<exists>out. Calculate r = Inr out \<and>
         \<not> ToleranceSymmetric out \<and> ToleranceHigh out = 80 \<and> ToleranceLow out = 20 \<and>
         (CapacitancePF out > 10 \<longrightarrow>
            (CalculationResult.MinValue out, CalculationResult.MinUnit out) =
              scaleCapacitance (CapacitancePF out * (8 / 10)) \<and>
            (CalculationResult.MaxValue out, CalculationResult.MaxUnit out) =
              scaleCapacitance (CapacitancePF out * (18 / 10)))"
      by (auto simp: percentageTolerance_def)
  qed
  have resistor: "CalculateResistor rr = Inr ro \<longrightarrow>
      (ResistorResult.MinValue ro, ResistorResult.MinUnit ro) =
        scaleResistance (ResistanceOhms ro * (1 - ResistorResult.TolerancePercent ro / 100)) \<and>
      (ResistorResult.MaxValue ro, ResistorResult.MaxUnit ro) =
        scaleResistance (ResistanceOhms ro * (1 + ResistorResult.TolerancePercent ro / 100))"
    using CalculateResistor_Inr [of rr ro] by blast
  show ?thesis
    apply (intro conjI)
          apply (rule grey)
         apply (rule others)
        apply (rule step)
       apply (rule ex_min)
      apply (rule ex_max)
     apply (rule decode)
    apply (rule resistor)
    done
qed

theorem grey_only_asymmetric_witness:
  "\<exists>out. Calculate \<lparr>CapacitorReading.Band1 = ColorBrown, Band2 = ColorBlack, Band3 = ColorRed,
       Band4 = ColorGrey, Band5 = ColorBlack, BandCount = 4, CapType = TypeK\<rparr> = Inr out \<and>
     CapacitancePF out = 1000 \<and>
     (CalculationResult.MinValue out, CalculationResult.MinUnit out) = (800, unit_pF) \<and>
     (CalculationResult.MaxValue out, CalculationResult.MaxUnit out) = (18 / 10, unit_nF)"
proof -
  let ?r = "\<lparr>CapacitorReading.Band1 = ColorBrown, Band2 = ColorBlack, Band3 = ColorRed,
       Band4 = ColorGrey, Band5 = ColorBlack, BandCount = 4, CapType = TypeK\<rparr>"
  have h: "ValidDigit (GetColorInfo (CapacitorReading.Band1 ?r)) \<and>
    ValidDigit (GetColorInfo (CapacitorReading.Band2 ?r)) \<and>
    ValidMult (GetColorInfo (CapacitorReading.Band3 ?r)) \<and>
    CapacitorReading.Band4 ?r = ColorGrey"
    by (simp add: GetColorInfo_def colorMap_def Color_defs)
  have raw: "\<And>out. Calculate ?r = Inr out \<Longrightarrow> CapacitancePF out = 1000"
    by (simp add: Calculate_def Let_def GetColorInfo_def colorMap_def Color_defs
        calculateTolerance_def GetToleranceInfo_def toleranceMap_def newCalculationResult_def
        split: if_splits)
  from grey_only_asymmetric [of _ _ _ ?r] h obtain out where
    o: "Calculate ?r = Inr out" and
    rng: "CapacitancePF out > 10 \<longrightarrow>
            (CalculationResult.MinValue out, CalculationResult.MinUnit out) =
              scaleCapacitance (CapacitancePF out * (8 / 10)) \<and>
            (CalculationResult.MaxValue out, CalculationResult.MaxUnit out) =
              scaleCapacitance (CapacitancePF out * (18 / 10))"
    by blast
  from raw [OF o] rng have
    "(CalculationResult.MinValue out, CalculationResult.MinUnit out) = (800, unit_pF) \<and>
     (CalculationResult.MaxValue out, CalculationResult.MaxUnit out) = (18 / 10, unit_nF)"
    by (simp add: scaleCapacitance_def)
  with o raw [OF o] show ?thesis by blast
qed

subsection \<open>Voltage rating of a capacitor\<close>

lemma voltage_table_M:
  "map (GetVoltageRatingFractional TypeM) Colors =
     [(0, False), (16 / 10, True), (25 / 10, True), (4, True), (63 / 10, True), (10, True),
      (16, True), (25, True), (40, True), (0, False), (0, False), (0, False)]"
  by (simp add: GetVoltageRatingFractional_def typeInfoMap_def Type_defs GetColorInfo_def
      colorMap_def Color_defs Colors_def voltageMap_def)

lemma voltage_table_N:
  "map (GetVoltageRatingFractional TypeN) Colors =
     [(3, True), (6, True), (63 / 10, True), (10, True), (15, True), (20, True),
      (25, True), (35, True), (0, False), (0, False), (0, False), (0, False)]"
  by (simp add: GetVoltageRatingFractional_def typeInfoMap_def Type_defs GetColorInfo_def
      colorMap_def Color_defs Colors_def voltageMap_def)


text \<open>
  Claim C4. The capacitor decode looks the voltage up only when the band count is at least
  4 and band 5 is not Black; otherwise the result has no valid voltage (rating 0), so band
  5 Black never gives a valid voltage. The lookup cannot make the decode fail: whether the
  decode returns an error, and which, does not depend on band 5, the band count or the
  capacitor type, and a digit with no voltage for the type gives a result whose voltage is
  not valid (type L with Yellow, digit 4, for one). Type M with Brown is 1.6 V, type N with
  Red is 6.3 V, type M with Black is invalid; the two tables are given in full.
\<close>

theorem voltage_resolution:
  "(Calculate r = Inr out \<longrightarrow>
      (VoltageRating out, VoltageValid out) =
        (if CapacitorReading.BandCount r \<ge> 4 \<and> CapacitorReading.Band5 r \<noteq> ColorBlack
         then GetVoltageRatingFractional (CapType r) (CapacitorReading.Band5 r)
         else (0, False))) \<and>
   (Calculate r = Inr out \<and> CapacitorReading.Band5 r = ColorBlack \<longrightarrow> \<not> VoltageValid out) \<and>
   (Calculate r = Inr out \<and> CapacitorReading.BandCount r < 4 \<longrightarrow> \<not> VoltageValid out) \<and>
   ((Calculate (r\<lparr>CapacitorReading.Band5 := b, CapacitorReading.BandCount := n,
                  CapType := t\<rparr>) = Inl e) = (Calculate r = Inl e)) \<and>
   GetVoltageRatingFractional TypeM ColorBrown = (16 / 10, True) \<and>
   GetVoltageRatingFractional TypeN ColorRed = (63 / 10, True) \<and>
   GetVoltageRatingFractional TypeM ColorBlack = (0, False) \<and>
   GetVoltageRatingFractional TypeL ColorYellow = (0, False) \<and>
   map (GetVoltageRatingFractional TypeM) Colors =
     [(0, False), (16 / 10, True), (25 / 10, True), (4, True), (63 / 10, True), (10, True),
      (16, True), (25, True), (40, True), (0, False), (0, False), (0, False)] \<and>
   map (GetVoltageRatingFractional TypeN) Colors =
     [(3, True), (6, True), (63 / 10, True), (10, True), (15, True), (20, True),
      (25, True), (35, True), (0, False), (0, False), (0, False), (0, False)]"
proof -
  have lookup: "Calculate r = Inr out \<longrightarrow>
      (VoltageRating out, VoltageValid out) =
        (if CapacitorReading.BandCount r \<ge> 4 \<and> CapacitorReading.Band5 r \<noteq> ColorBlack
         then GetVoltageRatingFractional (CapType r) (CapacitorReading.Band5 r)
         else (0, False))"
    using Calculate_Inr_voltage [of r out] by blast
  have black: "Calculate r = Inr out \<and> CapacitorReading.Band5 r = ColorBlack \<longrightarrow>
      \<not> VoltageValid out"
    using Calculate_Inr_voltage [of r out] by auto
  have few: "Calculate r = Inr out \<and> CapacitorReading.BandCount r < 4 \<longrightarrow>
      \<not> VoltageValid out"
    using Calculate_Inr_voltage [of r out] by auto
  have silent: "(Calculate (r\<lparr>CapacitorReading.Band5 := b, CapacitorReading.BandCount := n,
                  CapType := t\<rparr>) = Inl e) = (Calculate r = Inl e)"
    by (simp add: Calculate_Inl_iff)
  have m1: "GetVoltageRatingFractional TypeM ColorBrown = (16 / 10, True)"
    by (simp add: GetVoltageRatingFractional_def typeInfoMap_def Type_defs GetColorInfo_def
        colorMap_def Color_defs voltageMap_def)
  have n2: "GetVoltageRatingFractional TypeN ColorRed = (63 / 10, True)"
    by (simp add: GetVoltageRatingFractional_def typeInfoMap_def Type_defs GetColorInfo_def
        colorMap_def Color_defs voltageMap_def)
  have m0: "GetVoltageRatingFractional TypeM ColorBlack = (0, False)"
    by (simp add: GetVoltageRatingFractional_def typeInfoMap_def Type_defs GetColorInfo_def
        colorMap_def Color_defs voltageMap_def)
  have l4: "GetVoltageRatingFractional TypeL ColorYellow = (0, False)"
    by (simp add: GetVoltageRatingFractional_def typeInfoMap_def Type_defs GetColorInfo_def
        colorMap_def Color_defs voltageMap_def)
  show ?thesis
    apply (intro conjI)
             apply (rule lookup)
            apply (rule black)
           apply (rule few)
          apply (rule silent)
         apply (rule m1)
        apply (rule n2)
       apply (rule m0)
      apply (rule l4)
     apply (rule voltage_table_M)
    apply (rule voltage_table_N)
    done
qed

theorem voltage_resolution_witness:
  "(\<exists>out. Calculate \<lparr>CapacitorReading.Band1 = ColorRed, Band2 = ColorViolet,
        Band3 = ColorOrange, Band4 = ColorBrown, Band5 = ColorOrange, BandCount = 5,
        CapType = TypeK\<rparr> = Inr out \<and>
      (VoltageRating out, VoltageValid out) = (400, True)) \<and>
   (\<exists>out. Calculate \<lparr>CapacitorReading.Band1 = ColorRed, Band2 = ColorViolet,
        Band3 = ColorOrange, Band4 = ColorBrown, Band5 = ColorYellow, BandCount = 4,
        CapType = TypeL\<rparr> = Inr out \<and>
      (VoltageRating out, VoltageValid out) = (0, False))"
proof -
  let ?k = "\<lparr>CapacitorReading.Band1 = ColorRed, Band2 = ColorViolet,
        Band3 = ColorOrange, Band4 = ColorBrown, Band5 = ColorOrange, BandCount = 5,
        CapType = TypeK\<rparr>"
  let ?l = "\<lparr>CapacitorReading.Band1 = ColorRed, Band2 = ColorViolet,
        Band3 = ColorOrange, Band4 = ColorBrown, Band5 = ColorYellow, BandCount = 4,
        CapType = TypeL\<rparr>"
  from Calculate_outcome [of ?k] obtain ok where k: "Calculate ?k = Inr ok"
    by (auto simp: GetColorInfo_def colorMap_def toleranceMap_def Color_defs)
  from Calculate_outcome [of ?l] obtain ol where l: "Calculate ?l = Inr ol"
    by (auto simp: GetColorInfo_def colorMap_def toleranceMap_def Color_defs)
  from voltage_resolution [of ?k ok] k
  have "(VoltageRating ok, VoltageValid ok) = (400, True)"
    by (simp add: GetVoltageRatingFractional_def typeInfoMap_def Type_defs GetColorInfo_def
        colorMap_def Color_defs)
  moreover from voltage_resolution [of ?l ol] l
  have "(VoltageRating ol, VoltageValid ol) = (0, False)"
    by (simp add: GetVoltageRatingFractional_def typeInfoMap_def Type_defs GetColorInfo_def
        colorMap_def Color_defs)
  ultimately show ?thesis using k l by blast
qed

subsection \<open>Band-count validation\<close>

lemma CalculateResistor_never_band_count:
  "ResistorReading.BandCount r = 4 \<or> ResistorReading.BandCount r = 5 \<or>
   ResistorReading.BandCount r = 6 \<Longrightarrow>
   CalculateResistor r \<noteq> Inl (InvalidBandCount k)"
  by (auto simp: CalculateResistor_def Let_def case_prod_beta split: if_splits)

text \<open>
  Claim C2, as amended. The capacitor band count is checked by \<open>ValidateBandCount\<close>, which
  rejects exactly the counts outside 3, 4, 5; the capacitor decode itself has no band-count
  check: it never returns a band-count error, and whether it fails, and how, does not depend
  on the band count. The resistor decode rejects every band count outside 4, 5, 6 with the
  band-count error, whatever the bands hold, and returns that error for no other reading;
  the resistor band-count validator accepts exactly 4, 5 and 6.
\<close>

theorem band_count_validation:
  "(ValidateBandCount n = None \<longleftrightarrow> n = 3 \<or> n = 4 \<or> n = 5) \<and>
   (n < 3 \<or> 5 < n \<longrightarrow> ValidateBandCount n = Some ''band count must be 3, 4, or 5'') \<and>
   (ValidateResistorBandCount n = None \<longleftrightarrow> n = 4 \<or> n = 5 \<or> n = 6) \<and>
   Calculate r \<noteq> Inl (InvalidBandCount k) \<and>
   ((Calculate (r\<lparr>CapacitorReading.BandCount := n\<rparr>) = Inl e) = (Calculate r = Inl e)) \<and>
   (ResistorReading.BandCount rr \<noteq> 4 \<and> ResistorReading.BandCount rr \<noteq> 5 \<and>
    ResistorReading.BandCount rr \<noteq> 6 \<longrightarrow>
      CalculateResistor rr = Inl (InvalidBandCount (ResistorReading.BandCount rr))) \<and>
   (ResistorReading.BandCount rr = 4 \<or> ResistorReading.BandCount rr = 5 \<or>
    ResistorReading.BandCount rr = 6 \<longrightarrow>
      CalculateResistor rr \<noteq> Inl (InvalidBandCount k))"
proof -
  have v: "ValidateBandCount n = None \<longleftrightarrow> n = 3 \<or> n = 4 \<or> n = 5"
    by (auto simp: ValidateBandCount_def)
  have v': "n < 3 \<or> 5 < n \<longrightarrow> ValidateBandCount n = Some ''band count must be 3, 4, or 5''"
    by (simp add: ValidateBandCount_def)
  have w: "ValidateResistorBandCount n = None \<longleftrightarrow> n = 4 \<or> n = 5 \<or> n = 6"
    by (auto simp: ValidateResistorBandCount_def)
  have never: "Calculate r \<noteq> Inl (InvalidBandCount k)"
    by (simp add: Calculate_Inl_iff)
  have indep: "(Calculate (r\<lparr>CapacitorReading.BandCount := n\<rparr>) = Inl e) = (Calculate r = Inl e)"
    by (simp add: Calculate_Inl_iff)
  have res: "ResistorReading.BandCount rr \<noteq> 4 \<and> ResistorReading.BandCount rr \<noteq> 5 \<and>
    ResistorReading.BandCount rr \<noteq> 6 \<longrightarrow>
      CalculateResistor rr = Inl (InvalidBandCount (ResistorReading.BandCount rr))"
    using CalculateResistor_band_count [of rr] by blast
  have res': "ResistorReading.BandCount rr = 4 \<or> ResistorReading.BandCount rr = 5 \<or>
    ResistorReading.BandCount rr = 6 \<longrightarrow>
      CalculateResistor rr \<noteq> Inl (InvalidBandCount k)"
    using CalculateResistor_never_band_count [of rr k] by blast
  show ?thesis
    apply (intro conjI)
          apply (rule v)
         apply (rule v')
        apply (rule w)
       apply (rule never)
      apply (rule indep)
     apply (rule res)
    apply (rule res')
    done
qed

theorem band_count_validation_witness:
  "ValidateBandCount 7 = Some ''band count must be 3, 4, or 5'' \<and>
   CalculateResistor \<lparr>ResistorReading.Band1 = ColorYellow, Band2 = ColorViolet,
      Band3 = ColorBlack, Band4 = ColorBrown, Band5 = ColorBrown, Band6 = ColorBlack,
      BandCount = 7\<rparr> = Inl (InvalidBandCount 7) \<and>
   CalculateResistor \<lparr>ResistorReading.Band1 = ColorYellow, Band2 = ColorViolet,
      Band3 = ColorBlack, Band4 = ColorBrown, Band5 = ColorBrown, Band6 = ColorBlack,
      BandCount = 5\<rparr> \<noteq> Inl (InvalidBandCount 5)"
  using band_count_validation [of 7 _ _ _
      "\<lparr>ResistorReading.Band1 = ColorYellow, Band2 = ColorViolet,
      Band3 = ColorBlack, Band4 = ColorBrown, Band5 = ColorBrown, Band6 = ColorBlack,
      BandCount = 7\<rparr>"]
    band_count_validation [of _ _ 5 _
      "\<lparr>ResistorReading.Band1 = ColorYellow, Band2 = ColorViolet,
      Band3 = ColorBlack, Band4 = ColorBrown, Band5 = ColorBrown, Band6 = ColorBlack,
      BandCount = 5\<rparr>"]
  by simp

text \<open>
  The claim as first stated fails for the capacitor: with band count 7 and valid bands the
  decode returns a result (10 pF with an absolute tolerance of 0.1 pF), not an error.
\<close>

theorem Calculate_band_count_counterexample:
  "Calculate \<lparr>CapacitorReading.Band1 = ColorBrown, Band2 = ColorBlack, Band3 = ColorBlack,
      Band4 = ColorBrown, Band5 = ColorBlack, BandCount = 7, CapType = TypeK\<rparr> =
   Inr \<lparr>CapacitancePF = 10, CapacitanceValue = 10, CapacitanceUnit = unit_pF,
        ToleranceType = ''absolute'', TolerancePercent = 0,
        ToleranceAbsolutePF = 1 / 10, ToleranceSymmetric = True,
        ToleranceHigh = 1, ToleranceLow = 1, MinValue = 99 / 10,
        MaxValue = 101 / 10, MinUnit = unit_pF, MaxUnit = unit_pF,
        VoltageRating = 0, VoltageValid = False, TempCoefficient = 0,
        TempCoeffValid = False,
        Reading = \<lparr>CapacitorReading.Band1 = ColorBrown, Band2 = ColorBlack,
          Band3 = ColorBlack, Band4 = ColorBrown, Band5 = ColorBlack, BandCount = 7,
          CapType = TypeK\<rparr>\<rparr>"
  by (simp add: Calculate_def Let_def GetColorInfo_def colorMap_def Color_defs
      calculateTolerance_def GetToleranceInfo_def toleranceMap_def newCalculationResult_def
      scaleCapacitance_def unit_defs)

subsection \<open>Raw picofarads of a capacitor\<close>












subsection \<open>Band layout of a resistor\<close>

lemma CalculateResistor_invalid_third_digit:
  "ResistorReading.BandCount r = 5 \<or> ResistorReading.BandCount r = 6 \<Longrightarrow>
   \<not> ValidDigit (GetColorInfo (ResistorReading.Band3 r)) \<Longrightarrow>
   CalculateResistor r = Inl InvalidDigit"
  by (auto simp: CalculateResistor_def Let_def)

text \<open>
  Claim C6. The meaning of a resistor's bands shifts with the band count. With 4 bands the
  base is digit(B1) * 10 + digit(B2), the multiplier comes from B3 and the tolerance from
  B4, and there is no temperature coefficient. With 5 or 6 bands the base is
  digit(B1) * 100 + digit(B2) * 10 + digit(B3), the multiplier comes from B4 and the
  tolerance from B5 (so B3 must then be a digit); with 6 bands the temperature coefficient
  is read from B6. On valid bands the decode returns the result so described. The 5-band
  reading Yellow, Violet, Black, Brown, Brown has base 470 and multiplier 10, hence 4700
  ohms, tolerance 1 percent and the range 4653 to 4747 ohms, shown as 4.653 and 4.747
  kilo-ohm.
\<close>

theorem resistor_band_semantics:
  "(ResistorReading.BandCount r = 4 \<and>
    ValidDigit (GetColorInfo (ResistorReading.Band1 r)) \<and>
    ValidDigit (GetColorInfo (ResistorReading.Band2 r)) \<and>
    resistorMultiplierMap (ResistorReading.Band3 r) = Some mult \<and>
    resistorToleranceMap (ResistorReading.Band4 r) = Some tol \<longrightarrow>
      (\<exists>out. CalculateResistor r = Inr out \<and>
         ResistanceOhms out =
           of_int (Digit (GetColorInfo (ResistorReading.Band1 r)) * 10 +
                   Digit (GetColorInfo (ResistorReading.Band2 r))) * mult \<and>
         ResistorResult.TolerancePercent out = Percent tol \<and>
         (ResistorResult.MinValue out, ResistorResult.MinUnit out) =
           scaleResistance (ResistanceOhms out * (1 - Percent tol / 100)) \<and>
         (ResistorResult.MaxValue out, ResistorResult.MaxUnit out) =
           scaleResistance (ResistanceOhms out * (1 + Percent tol / 100)) \<and>
         (ResistorResult.TempCoefficient out, ResistorResult.TempCoeffValid out) = (0, False))) \<and>
   ((ResistorReading.BandCount r = 5 \<or> ResistorReading.BandCount r = 6) \<and>
    ValidDigit (GetColorInfo (ResistorReading.Band1 r)) \<and>
    ValidDigit (GetColorInfo (ResistorReading.Band2 r)) \<and>
    ValidDigit (GetColorInfo (ResistorReading.Band3 r)) \<and>
    resistorMultiplierMap (ResistorReading.Band4 r) = Some mult \<and>
    resistorToleranceMap (ResistorReading.Band5 r) = Some tol \<longrightarrow>
      (\<exists>out. CalculateResistor r = Inr out \<and>
         ResistanceOhms out =
           of_int (Digit (GetColorInfo (ResistorReading.Band1 r)) * 100 +
                   Digit (GetColorInfo (ResistorReading.Band2 r)) * 10 +
                   Digit (GetColorInfo (ResistorReading.Band3 r))) * mult \<and>
         ResistorResult.TolerancePercent out = Percent tol \<and>
         (ResistorResult.MinValue out, ResistorResult.MinUnit out) =
           scaleResistance (ResistanceOhms out * (1 - Percent tol / 100)) \<and>
         (ResistorResult.MaxValue out, ResistorResult.MaxUnit out) =
           scaleResistance (ResistanceOhms out * (1 + Percent tol / 100)) \<and>
         (ResistorResult.TempCoefficient out, ResistorResult.TempCoeffValid out) =
           (if ResistorReading.BandCount r = 6
            then GetResistorTempCoefficient (ResistorReading.Band6 r) else (0, False)))) \<and>
   ((ResistorReading.BandCount r = 5 \<or> ResistorReading.BandCount r = 6) \<and>
    \<not> ValidDigit (GetColorInfo (ResistorReading.Band3 r)) \<longrightarrow>
      CalculateResistor r = Inl InvalidDigit) \<and>
   CalculateResistor \<lparr>ResistorReading.Band1 = ColorYellow, Band2 = ColorViolet,
      Band3 = ColorBlack, Band4 = ColorBrown, Band5 = ColorBrown, Band6 = b6,
      BandCount = 5\<rparr> =
     Inr \<lparr>ResistanceOhms = 4700, ResistanceValue = 47 / 10, ResistanceUnit = unit_kOhm,
          TolerancePercent = 1, MinValue = 4653 / 1000, MaxValue = 4747 / 1000,
          MinUnit = unit_kOhm, MaxUnit = unit_kOhm, TempCoefficient = 0,
          TempCoeffValid = False,
          Reading = \<lparr>ResistorReading.Band1 = ColorYellow, Band2 = ColorViolet,
            Band3 = ColorBlack, Band4 = ColorBrown, Band5 = ColorBrown, Band6 = b6,
            BandCount = 5\<rparr>\<rparr> \<and>
   Digit (GetColorInfo ColorYellow) * 100 + Digit (GetColorInfo ColorViolet) * 10 +
     Digit (GetColorInfo ColorBlack) = 470 \<and>
   GetResistorMultiplier ColorBrown = (10, True) \<and>
   Percent (fst (GetResistorTolerance ColorBrown)) = 1 \<and>
   scaleResistance (4700 * (1 - 1 / 100)) = (4653 / 1000, unit_kOhm) \<and>
   scaleResistance (4700 * (1 + 1 / 100)) = (4747 / 1000, unit_kOhm)"
proof -
  have four: "ResistorReading.BandCount r = 4 \<and>
    ValidDigit (GetColorInfo (ResistorReading.Band1 r)) \<and>
    ValidDigit (GetColorInfo (ResistorReading.Band2 r)) \<and>
    resistorMultiplierMap (ResistorReading.Band3 r) = Some mult \<and>
    resistorToleranceMap (ResistorReading.Band4 r) = Some tol \<longrightarrow>
      (\<exists>out. CalculateResistor r = Inr out \<and>
         ResistanceOhms out =
           of_int (Digit (GetColorInfo (ResistorReading.Band1 r)) * 10 +
                   Digit (GetColorInfo (ResistorReading.Band2 r))) * mult \<and>
         ResistorResult.TolerancePercent out = Percent tol \<and>
         (ResistorResult.MinValue out, ResistorResult.MinUnit out) =
           scaleResistance (ResistanceOhms out * (1 - Percent tol / 100)) \<and>
         (ResistorResult.MaxValue out, ResistorResult.MaxUnit out) =
           scaleResistance (ResistanceOhms out * (1 + Percent tol / 100)) \<and>
         (ResistorResult.TempCoefficient out, ResistorResult.TempCoeffValid out) = (0, False))"
  proof
    assume a: "ResistorReading.BandCount r = 4 \<and>
      ValidDigit (GetColorInfo (ResistorReading.Band1 r)) \<and>
      ValidDigit (GetColorInfo (ResistorReading.Band2 r)) \<and>
      resistorMultiplierMap (ResistorReading.Band3 r) = Some mult \<and>
      resistorToleranceMap (ResistorReading.Band4 r) = Some tol"
    then have "\<exists>out. CalculateResistor r = Inr out \<and>
     ResistorResult.Reading out = r \<and>
     ResistanceOhms out =
       (if ResistorReading.BandCount r = 4
        then of_int (Digit (GetColorInfo (ResistorReading.Band1 r)) * 10 +
                     Digit (GetColorInfo (ResistorReading.Band2 r)))
        else of_int (Digit (GetColorInfo (ResistorReading.Band1 r)) * 100 +
                     Digit (GetColorInfo (ResistorReading.Band2 r)) * 10 +
                     Digit (GetColorInfo (ResistorReading.Band3 r)))) * mult \<and>
     (ResistanceValue out, ResistanceUnit out) = scaleResistance (ResistanceOhms out) \<and>
     ResistorResult.TolerancePercent out = Percent tol \<and>
     (ResistorResult.MinValue out, ResistorResult.MinUnit out) =
       scaleResistance (ResistanceOhms out * (1 - Percent tol / 100)) \<and>
     (ResistorResult.MaxValue out, ResistorResult.MaxUnit out) =
       scaleResistance (ResistanceOhms out * (1 + Percent tol / 100)) \<and>
     (ResistorResult.TempCoefficient out, ResistorResult.TempCoeffValid out) =
       (if ResistorReading.BandCount r = 6
        then GetResistorTempCoefficient (ResistorReading.Band6 r) else (0, False))"
      by (intro CalculateResistor_success) simp_all
    with a show "\<exists>out. CalculateResistor r = Inr out \<and>
         ResistanceOhms out =
           of_int (Digit (GetColorInfo (ResistorReading.Band1 r)) * 10 +
                   Digit (GetColorInfo (ResistorReading.Band2 r))) * mult \<and>
         ResistorResult.TolerancePercent out = Percent tol \<and>
         (ResistorResult.MinValue out, ResistorResult.MinUnit out) =
           scaleResistance (ResistanceOhms out * (1 - Percent tol / 100)) \<and>
         (ResistorResult.MaxValue out, ResistorResult.MaxUnit out) =
           scaleResistance (ResistanceOhms out * (1 + Percent tol / 100)) \<and>
         (ResistorResult.TempCoefficient out, ResistorResult.TempCoeffValid out) = (0, False)"
      by auto
  qed
  have more: "(ResistorReading.BandCount r = 5 \<or> ResistorReading.BandCount r = 6) \<and>
    ValidDigit (GetColorInfo (ResistorReading.Band1 r)) \<and>
    ValidDigit (GetColorInfo (ResistorReading.Band2 r)) \<and>
    ValidDigit (GetColorInfo (ResistorReading.Band3 r)) \<and>
    resistorMultiplierMap (ResistorReading.Band4 r) = Some mult \<and>
    resistorToleranceMap (ResistorReading.Band5 r) = Some tol \<longrightarrow>
      (\<exists>out. CalculateResistor r = Inr out \<and>
         ResistanceOhms out =
           of_int (Digit (GetColorInfo (ResistorReading.Band1 r)) * 100 +
                   Digit (GetColorInfo (ResistorReading.Band2 r)) * 10 +
                   Digit (GetColorInfo (ResistorReading.Band3 r))) * mult \<and>
         ResistorResult.TolerancePercent out = Percent tol \<and>
         (ResistorResult.MinValue out, ResistorResult.MinUnit out) =
           scaleResistance (ResistanceOhms out * (1 - Percent tol / 100)) \<and>
         (ResistorResult.MaxValue out, ResistorResult.MaxUnit out) =
           scaleResistance (ResistanceOhms out * (1 + Percent tol / 100)) \<and>
         (ResistorResult.TempCoefficient out, ResistorResult.TempCoeffValid out) =
           (if ResistorReading.BandCount r = 6
            then GetResistorTempCoefficient (ResistorReading.Band6 r) else (0, False)))"
  proof
    assume a: "(ResistorReading.BandCount r = 5 \<or> ResistorReading.BandCount r = 6) \<and>
      ValidDigit (GetColorInfo (ResistorReading.Band1 r)) \<and>
      ValidDigit (GetColorInfo (ResistorReading.Band2 r)) \<and>
      ValidDigit (GetColorInfo (ResistorReading.Band3 r)) \<and>
      resistorMultiplierMap (ResistorReading.Band4 r) = Some mult \<and>
      resistorToleranceMap (ResistorReading.Band5 r) = Some tol"
    then have n4: "ResistorReading.BandCount r \<noteq> 4"
      by auto
    from a n4 have "\<exists>out. CalculateResistor r = Inr out \<and>
     ResistorResult.Reading out = r \<and>
     ResistanceOhms out =
       (if ResistorReading.BandCount r = 4
        then of_int (Digit (GetColorInfo (ResistorReading.Band1 r)) * 10 +
                     Digit (GetColorInfo (ResistorReading.Band2 r)))
        else of_int (Digit (GetColorInfo (ResistorReading.Band1 r)) * 100 +
                     Digit (GetColorInfo (ResistorReading.Band2 r)) * 10 +
                     Digit (GetColorInfo (ResistorReading.Band3 r)))) * mult \<and>
     (ResistanceValue out, ResistanceUnit out) = scaleResistance (ResistanceOhms out) \<and>
     ResistorResult.TolerancePercent out = Percent tol \<and>
     (ResistorResult.MinValue out, ResistorResult.MinUnit out) =
       scaleResistance (ResistanceOhms out * (1 - Percent tol / 100)) \<and>
     (ResistorResult.MaxValue out, ResistorResult.MaxUnit out) =
       scaleResistance (ResistanceOhms out * (1 + Percent tol / 100)) \<and>
     (ResistorResult.TempCoefficient out, ResistorResult.TempCoeffValid out) =
       (if ResistorReading.BandCount r = 6
        then GetResistorTempCoefficient (ResistorReading.Band6 r) else (0, False))"
      by (intro CalculateResistor_success) auto
    with n4 show "\<exists>out. CalculateResistor r = Inr out \<and>
         ResistanceOhms out =
           of_int (Digit (GetColorInfo (ResistorReading.Band1 r)) * 100 +
                   Digit (GetColorInfo (ResistorReading.Band2 r)) * 10 +
                   Digit (GetColorInfo (ResistorReading.Band3 r))) * mult \<and>
         ResistorResult.TolerancePercent out = Percent tol \<and>
         (ResistorResult.MinValue out, ResistorResult.MinUnit out) =
           scaleResistance (ResistanceOhms out * (1 - Percent tol / 100)) \<and>
         (ResistorResult.MaxValue out, ResistorResult.MaxUnit out) =
           scaleResistance (ResistanceOhms out * (1 + Percent tol / 100)) \<and>
         (ResistorResult.TempCoefficient out, ResistorResult.TempCoeffValid out) =
           (if ResistorReading.BandCount r = 6
            then GetResistorTempCoefficient (ResistorReading.Band6 r) else (0, False))"
      by auto
  qed
  have third: "(ResistorReading.BandCount r = 5 \<or> ResistorReading.BandCount r = 6) \<and>
    \<not> ValidDigit (GetColorInfo (ResistorReading.Band3 r)) \<longrightarrow>
      CalculateResistor r = Inl InvalidDigit"
    using CalculateResistor_invalid_third_digit [of r] by blast
  have example: "CalculateResistor \<lparr>ResistorReading.Band1 = ColorYellow, Band2 = ColorViolet,
      Band3 = ColorBlack, Band4 = ColorBrown, Band5 = ColorBrown, Band6 = b6,
      BandCount = 5\<rparr> =
     Inr \<lparr>ResistanceOhms = 4700, ResistanceValue = 47 / 10, ResistanceUnit = unit_kOhm,
          TolerancePercent = 1, MinValue = 4653 / 1000, MaxValue = 4747 / 1000,
          MinUnit = unit_kOhm, MaxUnit = unit_kOhm, TempCoefficient = 0,
          TempCoeffValid = False,
          Reading = \<lparr>ResistorReading.Band1 = ColorYellow, Band2 = ColorViolet,
            Band3 = ColorBlack, Band4 = ColorBrown, Band5 = ColorBrown, Band6 = b6,
            BandCount = 5\<rparr>\<rparr>"
    by (simp add: CalculateResistor_def Let_def GetColorInfo_def colorMap_def Color_defs
        GetResistorMultiplier_def resistorMultiplierMap_def GetResistorTolerance_def
        resistorToleranceMap_def newResistorResult_def scaleResistance_def)
  have base: "Digit (GetColorInfo ColorYellow) * 100 + Digit (GetColorInfo ColorViolet) * 10 +
     Digit (GetColorInfo ColorBlack) = 470"
    by (simp add: GetColorInfo_def colorMap_def Color_defs)
  have mult: "GetResistorMultiplier ColorBrown = (10, True)"
    by (simp add: GetResistorMultiplier_def resistorMultiplierMap_def Color_defs)
  have pct: "Percent (fst (GetResistorTolerance ColorBrown)) = 1"
    by (simp add: GetResistorTolerance_def resistorToleranceMap_def Color_defs)
  have lo: "scaleResistance (4700 * (1 - 1 / 100)) = (4653 / 1000, unit_kOhm)"
    by (simp add: scaleResistance_def)
  have hi: "scaleResistance (4700 * (1 + 1 / 100)) = (4747 / 1000, unit_kOhm)"
    by (simp add: scaleResistance_def)
  show ?thesis
    apply (intro conjI)
            apply (rule four)
           apply (rule more)
          apply (rule third)
         apply (rule example)
        apply (rule base)
       apply (rule mult)
      apply (rule pct)
     apply (rule lo)
    apply (rule hi)
    done
qed

theorem resistor_band_semantics_witness:
  "(\<exists>out. CalculateResistor \<lparr>ResistorReading.Band1 = ColorYellow, Band2 = ColorViolet,
        Band3 = ColorBlack, Band4 = ColorGold, Band5 = ColorBlack, Band6 = ColorBlack,
        BandCount = 4\<rparr> = Inr out \<and>
      ResistanceOhms out = 47 \<and>
      (ResistorResult.MinValue out, ResistorResult.MinUnit out) = (4465 / 100, unit_Ohm) \<and>
      (ResistorResult.MaxValue out, ResistorResult.MaxUnit out) = (4935 / 100, unit_Ohm)) \<and>
   (\<exists>out. CalculateResistor \<lparr>ResistorReading.Band1 = ColorYellow, Band2 = ColorViolet,
        Band3 = ColorBlack, Band4 = ColorBrown, Band5 = ColorBrown, Band6 = ColorRed,
        BandCount = 6\<rparr> = Inr out \<and>
      ResistanceOhms out = 4700 \<and>
      (ResistorResult.TempCoefficient out, ResistorResult.TempCoeffValid out) = (50, True))"
proof -
  let ?r4 = "\<lparr>ResistorReading.Band1 = ColorYellow, Band2 = ColorViolet,
        Band3 = ColorBlack, Band4 = ColorGold, Band5 = ColorBlack, Band6 = ColorBlack,
        BandCount = 4\<rparr>"
  let ?r6 = "\<lparr>ResistorReading.Band1 = ColorYellow, Band2 = ColorViolet,
        Band3 = ColorBlack, Band4 = ColorBrown, Band5 = ColorBrown, Band6 = ColorRed,
        BandCount = 6\<rparr>"
  have h4: "ResistorReading.BandCount ?r4 = 4 \<and>
    ValidDigit (GetColorInfo (ResistorReading.Band1 ?r4)) \<and>
    ValidDigit (GetColorInfo (ResistorReading.Band2 ?r4)) \<and>
    resistorMultiplierMap (ResistorReading.Band3 ?r4) = Some 1 \<and>
    resistorToleranceMap (ResistorReading.Band4 ?r4) =
      Some \<lparr>Percent = 5, Name = plusMinus @ ''5% (standard)''\<rparr>"
    by (simp add: GetColorInfo_def colorMap_def Color_defs resistorMultiplierMap_def
        resistorToleranceMap_def)
  have h6: "(ResistorReading.BandCount ?r6 = 5 \<or> ResistorReading.BandCount ?r6 = 6) \<and>
    ValidDigit (GetColorInfo (ResistorReading.Band1 ?r6)) \<and>
    ValidDigit (GetColorInfo (ResistorReading.Band2 ?r6)) \<and>
    ValidDigit (GetColorInfo (ResistorReading.Band3 ?r6)) \<and>
    resistorMultiplierMap (ResistorReading.Band4 ?r6) = Some 10 \<and>
    resistorToleranceMap (ResistorReading.Band5 ?r6) =
      Some \<lparr>Percent = 1, Name = plusMinus @ ''1% (precision)''\<rparr>"
    by (simp add: GetColorInfo_def colorMap_def Color_defs resistorMultiplierMap_def
        resistorToleranceMap_def)
  let ?t4 = "\<lparr>Percent = 5, Name = plusMinus @ ''5% (standard)''\<rparr>"
  let ?t6 = "\<lparr>Percent = 1, Name = plusMinus @ ''1% (precision)''\<rparr>"
  from resistor_band_semantics [of ?r4 1 ?t4] h4
  obtain o4 where o4: "CalculateResistor ?r4 = Inr o4"
    "ResistanceOhms o4 =
       of_int (Digit (GetColorInfo (ResistorReading.Band1 ?r4)) * 10 +
               Digit (GetColorInfo (ResistorReading.Band2 ?r4))) * 1"
    "(ResistorResult.MinValue o4, ResistorResult.MinUnit o4) =
       scaleResistance (ResistanceOhms o4 * (1 - Percent ?t4 / 100))"
    "(ResistorResult.MaxValue o4, ResistorResult.MaxUnit o4) =
       scaleResistance (ResistanceOhms o4 * (1 + Percent ?t4 / 100))"
    by blast
  from o4(2) have raw4: "ResistanceOhms o4 = 47"
    by (simp add: GetColorInfo_def colorMap_def Color_defs)
  from o4(3,4) raw4 have rng4:
    "(ResistorResult.MinValue o4, ResistorResult.MinUnit o4) = (4465 / 100, unit_Ohm)"
    "(ResistorResult.MaxValue o4, ResistorResult.MaxUnit o4) = (4935 / 100, unit_Ohm)"
    by (simp_all add: scaleResistance_def)
  from resistor_band_semantics [of ?r6 10 ?t6] h6
  obtain o6 where o6: "CalculateResistor ?r6 = Inr o6"
    "ResistanceOhms o6 =
       of_int (Digit (GetColorInfo (ResistorReading.Band1 ?r6)) * 100 +
               Digit (GetColorInfo (ResistorReading.Band2 ?r6)) * 10 +
               Digit (GetColorInfo (ResistorReading.Band3 ?r6))) * 10"
    "(ResistorResult.TempCoefficient o6, ResistorResult.TempCoeffValid o6) =
       (if ResistorReading.BandCount ?r6 = 6
        then GetResistorTempCoefficient (ResistorReading.Band6 ?r6) else (0, False))"
    by blast
  from o6(2) have raw6: "ResistanceOhms o6 = 4700"
    by (simp add: GetColorInfo_def colorMap_def Color_defs)
  from o6(3) have tc6:
    "(ResistorResult.TempCoefficient o6, ResistorResult.TempCoeffValid o6) = (50, True)"
    by (simp add: GetResistorTempCoefficient_def resistorTempCoefficientMap_def Color_defs)
  from o4(1) raw4 rng4 o6(1) raw6 tc6 show ?thesis
    by blast
qed

subsection \<open>Totality of the resistor multiplier table\<close>

lemma CalculateResistor_invalid_multiplier_D:
  "CalculateResistor r = Inl InvalidMultiplier \<Longrightarrow>
   resistorMultiplierMap
     (if ResistorReading.BandCount r = 4 then ResistorReading.Band3 r
      else ResistorReading.Band4 r) = None"
  by (auto simp: CalculateResistor_def Let_def case_prod_beta GetResistorMultiplier_def
      split: if_splits option.splits)

lemma resistorMultiplierMap_dom:
  "dom resistorMultiplierMap = set Colors"
  unfolding resistorMultiplierMap_def dom_map_of_conv_image_fst
  by (simp add: Colors_def)

lemma resistorMultiplierMap_total:
  "c \<in> set Colors \<Longrightarrow> resistorMultiplierMap c \<noteq> None"
  using resistorMultiplierMap_dom by blast

lemma resistorMultiplierMap_table:
  "map GetResistorMultiplier Colors =
     [(1, True), (10, True), (100, True), (1000, True), (10000, True), (100000, True),
      (1000000, True), (10000000, True), (100000000, True), (1000000000, True),
      (1 / 10, True), (1 / 100, True)]"
  by (simp add: GetResistorMultiplier_def resistorMultiplierMap_def Colors_def Color_defs)

text \<open>
  Claim C10. The resistor multiplier table has an entry for each of the twelve colours:
  the lookup is valid for every one of them (the twelve multipliers are listed), the
  multiplier validator accepts every one of them, and the resistor decode never returns the
  multiplier error for a reading whose multiplier band (B3 with 4 bands, B4 otherwise) holds
  one of the twelve colours.
\<close>

theorem resistor_multiplier_total:
  "(c \<in> set Colors \<longrightarrow>
      snd (GetResistorMultiplier c) \<and> ValidateResistorMultiplier c n = None) \<and>
   map GetResistorMultiplier Colors =
     [(1, True), (10, True), (100, True), (1000, True), (10000, True), (100000, True),
      (1000000, True), (10000000, True), (100000000, True), (1000000000, True),
      (1 / 10, True), (1 / 100, True)] \<and>
   ((if ResistorReading.BandCount r = 4 then ResistorReading.Band3 r
     else ResistorReading.Band4 r) \<in> set Colors \<longrightarrow>
      CalculateResistor r \<noteq> Inl InvalidMultiplier)"
proof -
  have total: "c \<in> set Colors \<longrightarrow>
      snd (GetResistorMultiplier c) \<and> ValidateResistorMultiplier c n = None"
    using resistorMultiplierMap_total [of c]
    by (auto simp: GetResistorMultiplier_def ValidateResistorMultiplier_def)
  have unreachable: "(if ResistorReading.BandCount r = 4 then ResistorReading.Band3 r
     else ResistorReading.Band4 r) \<in> set Colors \<longrightarrow>
      CalculateResistor r \<noteq> Inl InvalidMultiplier"
    using CalculateResistor_invalid_multiplier_D [of r]
      resistorMultiplierMap_total
        [of "if ResistorReading.BandCount r = 4 then ResistorReading.Band3 r
             else ResistorReading.Band4 r"]
    by blast
  show ?thesis
    apply (intro conjI)
      apply (rule total)
     apply (rule resistorMultiplierMap_table)
    apply (rule unreachable)
    done
qed

theorem resistor_multiplier_total_witness:
  "snd (GetResistorMultiplier ColorWhite) \<and>
   ValidateResistorMultiplier ColorWhite 3 = None \<and>
   CalculateResistor \<lparr>ResistorReading.Band1 = ColorYellow, Band2 = ColorViolet,
      Band3 = ColorWhite, Band4 = ColorBlue, Band5 = ColorBrown, Band6 = ColorBlack,
      BandCount = 4\<rparr> \<noteq> Inl InvalidMultiplier"
  using resistor_multiplier_total [of ColorWhite 3
      "\<lparr>ResistorReading.Band1 = ColorYellow, Band2 = ColorViolet,
      Band3 = ColorWhite, Band4 = ColorBlue, Band5 = ColorBrown, Band6 = ColorBlack,
      BandCount = 4\<rparr>"]
  by (simp add: Colors_def)

subsection \<open>Parsing colour names\<close>

lemma isSpace_toLowerChar: "isSpace (toLowerChar c) = isSpace c"
  by (auto simp: isSpace_def toLowerChar_def)

lemma dropWhile_all: "list_all P xs \<Longrightarrow> dropWhile P (xs @ ys) = dropWhile P ys"
  by (induction xs) auto

lemma TrimSpace_sandwich:
  assumes "list_all isSpace pre" and "list_all isSpace post"
    and "s \<noteq> []" and "\<not> isSpace (hd s)" and "\<not> isSpace (last s)"
  shows "TrimSpace (pre @ s @ post) = s"
proof -
  have front: "dropWhile isSpace (pre @ s @ post) = s @ post"
    using assms(1,3,4) by (cases s) (simp_all add: dropWhile_all)
  have "list_all isSpace (rev post)"
    using assms(2) by (simp add: list_all_iff)
  then have "dropWhile isSpace (rev post @ rev s) = dropWhile isSpace (rev s)"
    by (rule dropWhile_all)
  also have "\<dots> = rev s"
    using assms(3,5) by (cases "rev s") (auto simp: last_rev [symmetric] hd_rev)
  finally show ?thesis
    by (simp add: TrimSpace_def front)
qed

lemma ToLower_ends:
  assumes "ToLower s = k" and "k \<noteq> []" and "\<not> isSpace (hd k)" and "\<not> isSpace (last k)"
  shows "s \<noteq> [] \<and> \<not> isSpace (hd s) \<and> \<not> isSpace (last s)"
proof -
  from assms(1,2) have ne: "s \<noteq> []"
    by (auto simp: ToLower_def)
  from assms(1) ne have "hd k = toLowerChar (hd s)" "last k = toLowerChar (last s)"
    by (auto simp: ToLower_def hd_map last_map)
  with assms(3,4) ne show ?thesis
    by (simp add: isSpace_toLowerChar)
qed

lemma ParseColor_normalised:
  assumes "list_all isSpace pre" and "list_all isSpace post"
    and "ToLower s = k" and "k \<noteq> []" and "\<not> isSpace (hd k)" and "\<not> isSpace (last k)"
    and "colorNameMap k = Some c"
  shows "ParseColor (pre @ s @ post) = (c, True)"
proof -
  from ToLower_ends [OF assms(3-6)]
  have "TrimSpace (pre @ s @ post) = s"
    using assms(1,2) by (intro TrimSpace_sandwich) simp_all
  with assms(3,7) show ?thesis
    by (simp add: ParseColor_def)
qed

lemma colorMap_names:
  "map (\<lambda>c. ColorInfo.Name (GetColorInfo c)) Colors = AllColorNames"
  by (simp add: GetColorInfo_def colorMap_def Color_defs Colors_def AllColorNames_def)

lemma colorNameMap_dom:
  "dom colorNameMap =
     set [''black'', ''brown'', ''red'', ''orange'', ''yellow'', ''green'', ''blue'',
          ''violet'', ''grey'', ''gray'', ''white'', ''gold'', ''silver'']"
  unfolding colorNameMap_def dom_map_of_conv_image_fst by simp

lemma colorNameMap_ran:
  "colorNameMap k = Some c \<Longrightarrow> c \<in> set Colors"
  by (auto simp: colorNameMap_def Colors_def split: if_splits)


lemma names_normalise:
  "list_all (\<lambda>(name, c). ToLower name \<noteq> [] \<and> \<not> isSpace (hd (ToLower name)) \<and>
       \<not> isSpace (last (ToLower name)) \<and> colorNameMap (ToLower name) = Some c)
     (zip AllColorNames Colors)"
  by code_simp

lemma ParseColor_name:
  assumes "(name, c) \<in> set (zip AllColorNames Colors)"
    and "list_all isSpace pre" and "list_all isSpace post"
    and "ToLower s = ToLower name"
  shows "ParseColor (pre @ s @ post) = (c, True)"
proof -
  from names_normalise assms(1)
  have k: "ToLower name \<noteq> []" "\<not> isSpace (hd (ToLower name))"
    "\<not> isSpace (last (ToLower name))" "colorNameMap (ToLower name) = Some c"
    by (auto simp: list_all_iff)
  from ParseColor_normalised [OF assms(2,3,4) k] show ?thesis .
qed

lemma names_of_colours:
  "list_all (\<lambda>(name, c). ColorInfo.Name (GetColorInfo c) = name) (zip AllColorNames Colors)"
  by code_simp

lemma ParseColor_found_iff:
  "snd (ParseColor t) \<longleftrightarrow> ToLower (TrimSpace t) \<in> dom colorNameMap"
  by (auto simp: ParseColor_def split: option.splits)

lemma ParseColor_not_found:
  "\<not> snd (ParseColor t) \<Longrightarrow> ParseColor t = (0, False)"
  by (auto simp: ParseColor_def split: option.splits)

lemma ParseColor_found_colour:
  "snd (ParseColor t) \<Longrightarrow> fst (ParseColor t) \<in> set Colors"
  by (auto simp: ParseColor_def colorNameMap_ran split: option.splits)

lemma isSpace_iff:
  "isSpace ch \<longleftrightarrow> ch \<in> set [CHR 0x09, CHR 0x0A, CHR 0x0B, CHR 0x0C, CHR 0x0D, CHR 0x20]"
proof -
  have "(of_char ch :: nat) = 9 \<longleftrightarrow> ch = CHR 0x09"
    "(of_char ch :: nat) = 10 \<longleftrightarrow> ch = CHR 0x0A"
    "(of_char ch :: nat) = 11 \<longleftrightarrow> ch = CHR 0x0B"
    "(of_char ch :: nat) = 12 \<longleftrightarrow> ch = CHR 0x0C"
    "(of_char ch :: nat) = 13 \<longleftrightarrow> ch = CHR 0x0D"
    "(of_char ch :: nat) = 32 \<longleftrightarrow> ch = CHR 0x20"
    using of_char_eq_iff [of ch "CHR 0x09", where ?'a = nat]
      of_char_eq_iff [of ch "CHR 0x0A", where ?'a = nat]
      of_char_eq_iff [of ch "CHR 0x0B", where ?'a = nat]
      of_char_eq_iff [of ch "CHR 0x0C", where ?'a = nat]
      of_char_eq_iff [of ch "CHR 0x0D", where ?'a = nat]
      of_char_eq_iff [of ch "CHR 0x20", where ?'a = nat]
    by simp_all
  then show ?thesis
    by (simp add: isSpace_def)
qed

lemma list_all_isSpace_iff:
  "list_all isSpace xs \<longleftrightarrow>
     set xs \<subseteq> set [CHR 0x09, CHR 0x0A, CHR 0x0B, CHR 0x0C, CHR 0x0D, CHR 0x20]"
  unfolding list_all_iff using isSpace_iff by blast

lemma toLowerChar_variant:
  assumes "a = b \<or>
     (65 \<le> (of_char a :: nat) \<and> (of_char a :: nat) \<le> 90 \<and>
      (of_char b :: nat) = of_char a + 32) \<or>
     (65 \<le> (of_char b :: nat) \<and> (of_char b :: nat) \<le> 90 \<and>
      (of_char a :: nat) = of_char b + 32)"
  shows "toLowerChar a = toLowerChar b"
proof -
  have up: "toLowerChar x = y"
    if "65 \<le> (of_char x :: nat)" "(of_char x :: nat) \<le> 90" "(of_char y :: nat) = of_char x + 32"
    for x y
  proof -
    from that have "toLowerChar x = char_of (of_char y :: nat)"
      by (simp add: toLowerChar_def)
    then show ?thesis by simp
  qed
  have low: "toLowerChar y = y"
    if "65 \<le> (of_char x :: nat)" "(of_char y :: nat) = of_char x + 32"
    for x y
    using that by (simp add: toLowerChar_def)
  from assms show ?thesis
    using up low by metis
qed

lemma ToLower_variant:
  "list_all2 (\<lambda>a b. a = b \<or>
     (65 \<le> (of_char a :: nat) \<and> (of_char a :: nat) \<le> 90 \<and>
      (of_char b :: nat) = of_char a + 32) \<or>
     (65 \<le> (of_char b :: nat) \<and> (of_char b :: nat) \<le> 90 \<and>
      (of_char a :: nat) = of_char b + 32)) s k \<Longrightarrow>
   ToLower s = ToLower k"
  unfolding ToLower_def
  by (induction rule: list_all2_induct) (simp_all add: toLowerChar_variant)

lemma variant_toLowerChar:
  "a = toLowerChar a \<or>
     (65 \<le> (of_char a :: nat) \<and> (of_char a :: nat) \<le> 90 \<and>
      (of_char (toLowerChar a) :: nat) = of_char a + 32) \<or>
     (65 \<le> (of_char (toLowerChar a) :: nat) \<and> (of_char (toLowerChar a) :: nat) \<le> 90 \<and>
      (of_char a :: nat) = of_char (toLowerChar a) + 32)"
  by (simp add: toLowerChar_def)

lemma variant_ToLower:
  "list_all2 (\<lambda>a b. a = b \<or>
     (65 \<le> (of_char a :: nat) \<and> (of_char a :: nat) \<le> 90 \<and>
      (of_char b :: nat) = of_char a + 32) \<or>
     (65 \<le> (of_char b :: nat) \<and> (of_char b :: nat) \<le> 90 \<and>
      (of_char a :: nat) = of_char b + 32)) s (ToLower s)"
  unfolding ToLower_def
  by (induction s) (simp_all add: variant_toLowerChar)

lemma TrimSpace_split:
  "\<exists>pre post. t = pre @ TrimSpace t @ post \<and> list_all isSpace pre \<and> list_all isSpace post"
proof -
  let ?u = "dropWhile isSpace t"
  have a: "t = takeWhile isSpace t @ ?u"
    by simp
  have "rev (takeWhile isSpace (rev ?u) @ dropWhile isSpace (rev ?u)) = rev (rev ?u)"
    by (simp only: takeWhile_dropWhile_id)
  then have "rev (dropWhile isSpace (rev ?u)) @ rev (takeWhile isSpace (rev ?u)) = ?u"
    by (simp only: rev_append rev_rev_ident)
  then have b: "?u = TrimSpace t @ rev (takeWhile isSpace (rev ?u))"
    by (simp only: TrimSpace_def)
  have c: "list_all isSpace (takeWhile isSpace t)"
    "list_all isSpace (rev (takeWhile isSpace (rev ?u)))"
    by (auto simp: list_all_iff dest: set_takeWhileD)
  from a b have "t = takeWhile isSpace t @ TrimSpace t @ rev (takeWhile isSpace (rev ?u))"
    by simp
  with c show ?thesis by blast
qed

lemma keys_normalise:
  "list_all (\<lambda>k. ToLower k = k \<and> k \<noteq> [] \<and> \<not> isSpace (hd k) \<and> \<not> isSpace (last k) \<and>
       colorNameMap k \<noteq> None)
     [''black'', ''brown'', ''red'', ''orange'', ''yellow'', ''green'', ''blue'',
      ''violet'', ''grey'', ''gray'', ''white'', ''gold'', ''silver'']"
  by code_simp


lemma ParseColor_found_explicit:
  "snd (ParseColor t) \<longleftrightarrow>
     (\<exists>pre s post key. t = pre @ s @ post \<and>
        set pre \<subseteq> set [CHR 0x09, CHR 0x0A, CHR 0x0B, CHR 0x0C, CHR 0x0D, CHR 0x20] \<and>
        set post \<subseteq> set [CHR 0x09, CHR 0x0A, CHR 0x0B, CHR 0x0C, CHR 0x0D, CHR 0x20] \<and>
        key \<in> set [''black'', ''brown'', ''red'', ''orange'', ''yellow'', ''green'', ''blue'',
          ''violet'', ''grey'', ''gray'', ''white'', ''gold'', ''silver''] \<and>
        list_all2 (\<lambda>a b. a = b \<or>
     (65 \<le> (of_char a :: nat) \<and> (of_char a :: nat) \<le> 90 \<and>
      (of_char b :: nat) = of_char a + 32) \<or>
     (65 \<le> (of_char b :: nat) \<and> (of_char b :: nat) \<le> 90 \<and>
      (of_char a :: nat) = of_char b + 32)) s key)"
proof
  assume "snd (ParseColor t)"
  then have k: "ToLower (TrimSpace t) \<in> set [''black'', ''brown'', ''red'', ''orange'', ''yellow'', ''green'', ''blue'',
          ''violet'', ''grey'', ''gray'', ''white'', ''gold'', ''silver'']"
    by (simp only: ParseColor_found_iff colorNameMap_dom)
  from TrimSpace_split [of t] obtain pre post where
    "t = pre @ TrimSpace t @ post" "list_all isSpace pre" "list_all isSpace post"
    by blast
  with k variant_ToLower [of "TrimSpace t"] show "(\<exists>pre s post key. t = pre @ s @ post \<and>
        set pre \<subseteq> set [CHR 0x09, CHR 0x0A, CHR 0x0B, CHR 0x0C, CHR 0x0D, CHR 0x20] \<and>
        set post \<subseteq> set [CHR 0x09, CHR 0x0A, CHR 0x0B, CHR 0x0C, CHR 0x0D, CHR 0x20] \<and>
        key \<in> set [''black'', ''brown'', ''red'', ''orange'', ''yellow'', ''green'', ''blue'',
          ''violet'', ''grey'', ''gray'', ''white'', ''gold'', ''silver''] \<and>
        list_all2 (\<lambda>a b. a = b \<or>
     (65 \<le> (of_char a :: nat) \<and> (of_char a :: nat) \<le> 90 \<and>
      (of_char b :: nat) = of_char a + 32) \<or>
     (65 \<le> (of_char b :: nat) \<and> (of_char b :: nat) \<le> 90 \<and>
      (of_char a :: nat) = of_char b + 32)) s key)"
    unfolding list_all_isSpace_iff by blast
next
  assume "(\<exists>pre s post key. t = pre @ s @ post \<and>
        set pre \<subseteq> set [CHR 0x09, CHR 0x0A, CHR 0x0B, CHR 0x0C, CHR 0x0D, CHR 0x20] \<and>
        set post \<subseteq> set [CHR 0x09, CHR 0x0A, CHR 0x0B, CHR 0x0C, CHR 0x0D, CHR 0x20] \<and>
        key \<in> set [''black'', ''brown'', ''red'', ''orange'', ''yellow'', ''green'', ''blue'',
          ''violet'', ''grey'', ''gray'', ''white'', ''gold'', ''silver''] \<and>
        list_all2 (\<lambda>a b. a = b \<or>
     (65 \<le> (of_char a :: nat) \<and> (of_char a :: nat) \<le> 90 \<and>
      (of_char b :: nat) = of_char a + 32) \<or>
     (65 \<le> (of_char b :: nat) \<and> (of_char b :: nat) \<le> 90 \<and>
      (of_char a :: nat) = of_char b + 32)) s key)"
  then obtain pre s post key where t: "t = pre @ s @ post"
    and ws: "list_all isSpace pre" "list_all isSpace post"
    and key: "key \<in> set [''black'', ''brown'', ''red'', ''orange'', ''yellow'', ''green'', ''blue'',
          ''violet'', ''grey'', ''gray'', ''white'', ''gold'', ''silver'']"
    and v: "list_all2 (\<lambda>a b. a = b \<or>
     (65 \<le> (of_char a :: nat) \<and> (of_char a :: nat) \<le> 90 \<and>
      (of_char b :: nat) = of_char a + 32) \<or>
     (65 \<le> (of_char b :: nat) \<and> (of_char b :: nat) \<le> 90 \<and>
      (of_char a :: nat) = of_char b + 32)) s key"
    unfolding list_all_isSpace_iff by blast
  from keys_normalise key have n: "ToLower key = key" "key \<noteq> []" "\<not> isSpace (hd key)"
    "\<not> isSpace (last key)" "colorNameMap key \<noteq> None"
    unfolding list_all_iff by blast+
  from n(5) obtain c where c: "colorNameMap key = Some c"
    by blast
  from ToLower_variant [OF v] n(1) have "ToLower s = key"
    by simp
  from ParseColor_normalised [OF ws this n(2,3,4) c] t show "snd (ParseColor t)"
    by simp
qed

text \<open>
  Claim C9. Parsing round-trips on the twelve display names: for each name and its colour,
  any text that differs from the name only in the case of its letters, with any run of tab,
  line feed, vertical tab, form feed, carriage return or space before and after it, parses
  to that colour with found = true, and the name itself is the colour's name in the colour
  table. "GREY" and "gray" parse to the same colour, Grey. For an ASCII text (every byte
  below 128), the text is found exactly when it is one of the thirteen keys, up to the case
  of its letters, with such white space around it, which is to say exactly when it is one
  of the keys once trimmed and lower-cased; a found colour is one of the twelve; and any
  other ASCII text gets found = false (the colour component is then Go's zero value, which
  carries no information). Texts with bytes above 127 are outside these statements.
\<close>

theorem ParseColor_round_trip:
  "((name, c) \<in> set (zip AllColorNames Colors) \<and>
    set pre \<subseteq> set [CHR 0x09, CHR 0x0A, CHR 0x0B, CHR 0x0C, CHR 0x0D, CHR 0x20] \<and>
    set post \<subseteq> set [CHR 0x09, CHR 0x0A, CHR 0x0B, CHR 0x0C, CHR 0x0D, CHR 0x20] \<and>
    list_all2 (\<lambda>a b. a = b \<or>
     (65 \<le> (of_char a :: nat) \<and> (of_char a :: nat) \<le> 90 \<and>
      (of_char b :: nat) = of_char a + 32) \<or>
     (65 \<le> (of_char b :: nat) \<and> (of_char b :: nat) \<le> 90 \<and>
      (of_char a :: nat) = of_char b + 32)) s name \<longrightarrow>
      ParseColor (pre @ s @ post) = (c, True)) \<and>
   ((name, c) \<in> set (zip AllColorNames Colors) \<longrightarrow>
      ParseColor name = (c, True) \<and> ColorInfo.Name (GetColorInfo c) = name) \<and>
   length AllColorNames = 12 \<and> length Colors = 12 \<and> distinct Colors \<and>
   map (\<lambda>c. ColorInfo.Name (GetColorInfo c)) Colors = AllColorNames \<and>
   ParseColor ''GREY'' = (ColorGrey, True) \<and>
   ParseColor ''gray'' = (ColorGrey, True) \<and>
   ParseColor ''GREY'' = ParseColor ''gray'' \<and>
   (list_all (\<lambda>ch. (of_char ch :: nat) < 128) t \<longrightarrow>
      (snd (ParseColor t) \<longleftrightarrow>
         (\<exists>pre s post key. t = pre @ s @ post \<and>
        set pre \<subseteq> set [CHR 0x09, CHR 0x0A, CHR 0x0B, CHR 0x0C, CHR 0x0D, CHR 0x20] \<and>
        set post \<subseteq> set [CHR 0x09, CHR 0x0A, CHR 0x0B, CHR 0x0C, CHR 0x0D, CHR 0x20] \<and>
        key \<in> set [''black'', ''brown'', ''red'', ''orange'', ''yellow'', ''green'', ''blue'',
          ''violet'', ''grey'', ''gray'', ''white'', ''gold'', ''silver''] \<and>
        list_all2 (\<lambda>a b. a = b \<or>
     (65 \<le> (of_char a :: nat) \<and> (of_char a :: nat) \<le> 90 \<and>
      (of_char b :: nat) = of_char a + 32) \<or>
     (65 \<le> (of_char b :: nat) \<and> (of_char b :: nat) \<le> 90 \<and>
      (of_char a :: nat) = of_char b + 32)) s key)) \<and>
      (snd (ParseColor t) \<longleftrightarrow> ToLower (TrimSpace t) \<in>
          set [''black'', ''brown'', ''red'', ''orange'', ''yellow'', ''green'', ''blue'',
          ''violet'', ''grey'', ''gray'', ''white'', ''gold'', ''silver'']) \<and>
      (snd (ParseColor t) \<longrightarrow> fst (ParseColor t) \<in> set Colors) \<and>
      (\<not> snd (ParseColor t) \<longrightarrow> ParseColor t = (0, False)))"
proof -
  have variants: "(name, c) \<in> set (zip AllColorNames Colors) \<and>
    set pre \<subseteq> set [CHR 0x09, CHR 0x0A, CHR 0x0B, CHR 0x0C, CHR 0x0D, CHR 0x20] \<and>
    set post \<subseteq> set [CHR 0x09, CHR 0x0A, CHR 0x0B, CHR 0x0C, CHR 0x0D, CHR 0x20] \<and>
    list_all2 (\<lambda>a b. a = b \<or>
     (65 \<le> (of_char a :: nat) \<and> (of_char a :: nat) \<le> 90 \<and>
      (of_char b :: nat) = of_char a + 32) \<or>
     (65 \<le> (of_char b :: nat) \<and> (of_char b :: nat) \<le> 90 \<and>
      (of_char a :: nat) = of_char b + 32)) s name \<longrightarrow>
      ParseColor (pre @ s @ post) = (c, True)"
    using ParseColor_name [of name c pre post s] ToLower_variant [of s name]
    unfolding list_all_isSpace_iff by blast
  have exact: "(name, c) \<in> set (zip AllColorNames Colors) \<longrightarrow>
      ParseColor name = (c, True) \<and> ColorInfo.Name (GetColorInfo c) = name"
  proof
    assume a: "(name, c) \<in> set (zip AllColorNames Colors)"
    from ParseColor_name [OF a, of "[]" "[]" name]
    have "ParseColor name = (c, True)" by simp
    moreover from names_of_colours a have "ColorInfo.Name (GetColorInfo c) = name"
      by (auto simp: list_all_iff)
    ultimately show "ParseColor name = (c, True) \<and> ColorInfo.Name (GetColorInfo c) = name"
      by blast
  qed
  have sizes: "length AllColorNames = 12" "length Colors = 12" "distinct Colors"
    by (simp_all add: AllColorNames_def Colors_def Color_defs)
  have upper: "ParseColor ''GREY'' = (ColorGrey, True)"
    by code_simp
  have gray: "ParseColor ''gray'' = (ColorGrey, True)"
    by code_simp
  have same: "ParseColor ''GREY'' = ParseColor ''gray''"
    by (simp only: upper gray)
  have found: "snd (ParseColor t) \<longleftrightarrow> ToLower (TrimSpace t) \<in>
          set [''black'', ''brown'', ''red'', ''orange'', ''yellow'', ''green'', ''blue'',
          ''violet'', ''grey'', ''gray'', ''white'', ''gold'', ''silver'']"
    by (simp only: ParseColor_found_iff colorNameMap_dom)
  have colour: "snd (ParseColor t) \<longrightarrow> fst (ParseColor t) \<in> set Colors"
    using ParseColor_found_colour [of t] by blast
  have missing: "\<not> snd (ParseColor t) \<longrightarrow> ParseColor t = (0, False)"
    using ParseColor_not_found [of t] by blast
  have ascii: "list_all (\<lambda>ch. (of_char ch :: nat) < 128) t \<longrightarrow>
      (snd (ParseColor t) \<longleftrightarrow>
         (\<exists>pre s post key. t = pre @ s @ post \<and>
        set pre \<subseteq> set [CHR 0x09, CHR 0x0A, CHR 0x0B, CHR 0x0C, CHR 0x0D, CHR 0x20] \<and>
        set post \<subseteq> set [CHR 0x09, CHR 0x0A, CHR 0x0B, CHR 0x0C, CHR 0x0D, CHR 0x20] \<and>
        key \<in> set [''black'', ''brown'', ''red'', ''orange'', ''yellow'', ''green'', ''blue'',
          ''violet'', ''grey'', ''gray'', ''white'', ''gold'', ''silver''] \<and>
        list_all2 (\<lambda>a b. a = b \<or>
     (65 \<le> (of_char a :: nat) \<and> (of_char a :: nat) \<le> 90 \<and>
      (of_char b :: nat) = of_char a + 32) \<or>
     (65 \<le> (of_char b :: nat) \<and> (of_char b :: nat) \<le> 90 \<and>
      (of_char a :: nat) = of_char b + 32)) s key)) \<and>
      (snd (ParseColor t) \<longleftrightarrow> ToLower (TrimSpace t) \<in>
          set [''black'', ''brown'', ''red'', ''orange'', ''yellow'', ''green'', ''blue'',
          ''violet'', ''grey'', ''gray'', ''white'', ''gold'', ''silver'']) \<and>
      (snd (ParseColor t) \<longrightarrow> fst (ParseColor t) \<in> set Colors) \<and>
      (\<not> snd (ParseColor t) \<longrightarrow> ParseColor t = (0, False))"
    apply (rule impI)
    apply (intro conjI)
       apply (rule ParseColor_found_explicit)
      apply (rule found)
     apply (rule colour)
    apply (rule missing)
    done
  show ?thesis
    apply (intro conjI)
            apply (rule variants)
           apply (rule exact)
          apply (rule sizes)
         apply (rule sizes)
        apply (rule sizes)
       apply (rule colorMap_names)
      apply (rule upper)
     apply (rule gray)
    apply (rule same)
    apply (rule ascii)
    done
qed

theorem ParseColor_round_trip_witness:
  "ParseColor (''  '' @ ''sILvEr'' @ [CHR 0x09, CHR 0x0A]) = (ColorSilver, True) \<and>
   ParseColor ''Violet'' = (ColorViolet, True) \<and>
   \<not> snd (ParseColor ''purple'') \<and> ParseColor ''purple'' = (0, False)"
proof -
  have z: "(''Silver'', ColorSilver) \<in> set (zip AllColorNames Colors)"
    "(''Violet'', ColorViolet) \<in> set (zip AllColorNames Colors)"
    by code_simp+
  have sp: "set ''  '' \<subseteq> set [CHR 0x09, CHR 0x0A, CHR 0x0B, CHR 0x0C, CHR 0x0D, CHR 0x20]"
    "set [CHR 0x09, CHR 0x0A] \<subseteq> set [CHR 0x09, CHR 0x0A, CHR 0x0B, CHR 0x0C, CHR 0x0D, CHR 0x20]"
    by simp_all
  have low: "list_all2 (\<lambda>a b. a = b \<or>
     (65 \<le> (of_char a :: nat) \<and> (of_char a :: nat) \<le> 90 \<and>
      (of_char b :: nat) = of_char a + 32) \<or>
     (65 \<le> (of_char b :: nat) \<and> (of_char b :: nat) \<le> 90 \<and>
      (of_char a :: nat) = of_char b + 32)) ''sILvEr'' ''Silver''"
    by simp
  have asc: "list_all (\<lambda>ch. (of_char ch :: nat) < 128) ''purple''"
    by simp
  have np: "ToLower (TrimSpace ''purple'') = ''purple''"
    by code_simp
  note inst = ParseColor_round_trip [of "''Silver''" ColorSilver "''  ''" "[CHR 0x09, CHR 0x0A]"
      "''sILvEr''" "''purple''"]
  from inst z(1) sp low
  have a: "ParseColor (''  '' @ ''sILvEr'' @ [CHR 0x09, CHR 0x0A]) = (ColorSilver, True)"
    by blast
  from inst asc have
    f: "snd (ParseColor ''purple'') \<longleftrightarrow> ToLower (TrimSpace ''purple'') \<in>
          set [''black'', ''brown'', ''red'', ''orange'', ''yellow'', ''green'', ''blue'',
          ''violet'', ''grey'', ''gray'', ''white'', ''gold'', ''silver'']"
    and m: "\<not> snd (ParseColor ''purple'') \<longrightarrow> ParseColor ''purple'' = (0, False)"
    by blast+
  from f np have b: "\<not> snd (ParseColor ''purple'')"
    by simp
  with m have b': "ParseColor ''purple'' = (0, False)"
    by blast
  from ParseColor_round_trip [of "''Violet''" ColorViolet] z(2)
  have c: "ParseColor ''Violet'' = (ColorViolet, True)"
    by blast
  from a b b' c show ?thesis by blast
qed

subsection \<open>The band-4 validator on small capacitors\<close>

lemma ValidateBand4_None_iff:
  "ValidateBand4 c pf = None \<longleftrightarrow>
     (\<exists>tol. toleranceMap c = Some tol \<and> \<not> (pf \<le> 10 \<and> AbsolutePF tol = 0))"
  by (auto simp: ValidateBand4_def GetToleranceInfo_def Let_def split: option.splits)

lemma ValidateBand4_small:
  "toleranceMap c = Some tol \<Longrightarrow> AbsolutePF tol = 0 \<Longrightarrow> pf \<le> 10 \<Longrightarrow>
   ValidateBand4 c pf =
     Some \<lparr>BandNumber = 4, Message = ColorInfo.Name (GetColorInfo c) @
       '' tolerance not typically used for capacitors '' @ lessEqualSign @
       ''10pF (use Brown, Red, Green, or White for absolute tolerance)''\<rparr>"
  by (simp add: ValidateBand4_def GetToleranceInfo_def Let_def)

lemma ValidateBand4_missing:
  "toleranceMap c = None \<Longrightarrow>
   ValidateBand4 c pf =
     Some \<lparr>BandNumber = 4, Message = ColorInfo.Name (GetColorInfo c) @
       '' is not valid for tolerance band''\<rparr>"
  by (simp add: ValidateBand4_def GetToleranceInfo_def)

lemma ValidateReading_band4:
  assumes "ValidDigit (GetColorInfo (CapacitorReading.Band1 r))"
    and "ValidDigit (GetColorInfo (CapacitorReading.Band2 r))"
    and "ValidMult (GetColorInfo (CapacitorReading.Band3 r))"
    and "ValidateBand4 (CapacitorReading.Band4 r)
           (of_int (Digit (GetColorInfo (CapacitorReading.Band1 r)) * 10 +
                    Digit (GetColorInfo (CapacitorReading.Band2 r))) *
            Multiplier (GetColorInfo (CapacitorReading.Band3 r))) = Some err"
  shows "ValidateReading r = Some err"
  using assms
  by (simp add: ValidateReading_def ValidateBand1_def ValidateBand2_def ValidateBand3_def
      Let_def)

text \<open>
  Claim C8, as amended. For a band-4 colour that is in the capacitor tolerance table but
  has no absolute value (Black, Orange, Yellow, Gold, Silver, Grey), when the capacitance
  computed from bands 1 to 3 is at most 10 pF, the band-4 validator returns a validation
  error for band 4 with a descriptive message ("... tolerance not typically used for
  capacitors ..."), just as it returns a validation error for a colour outside the table;
  it accepts a colour exactly when the colour is in the table and this case does not apply.
  The validation of a whole reading fails with that error, while the calculation accepts
  the same reading and falls back to the percentage tolerance.
\<close>

theorem ValidateBand4_small_capacitor:
  "(toleranceMap c = Some tol \<and> AbsolutePF tol = 0 \<and> pf \<le> 10 \<longrightarrow>
      ValidateBand4 c pf =
        Some \<lparr>BandNumber = 4, Message = ColorInfo.Name (GetColorInfo c) @
          '' tolerance not typically used for capacitors '' @ lessEqualSign @
          ''10pF (use Brown, Red, Green, or White for absolute tolerance)''\<rparr>) \<and>
   (toleranceMap c = None \<longrightarrow>
      ValidateBand4 c pf =
        Some \<lparr>BandNumber = 4, Message = ColorInfo.Name (GetColorInfo c) @
          '' is not valid for tolerance band''\<rparr>) \<and>
   (ValidateBand4 c pf = None \<longleftrightarrow>
      (\<exists>t. toleranceMap c = Some t \<and> \<not> (pf \<le> 10 \<and> AbsolutePF t = 0))) \<and>
   (toleranceMap c = Some tol \<longrightarrow>
      (AbsolutePF tol = 0 \<longleftrightarrow>
         c \<in> set [ColorBlack, ColorOrange, ColorYellow, ColorGold, ColorSilver, ColorGrey])) \<and>
   (ValidDigit (GetColorInfo (CapacitorReading.Band1 r)) \<and>
    ValidDigit (GetColorInfo (CapacitorReading.Band2 r)) \<and>
    ValidMult (GetColorInfo (CapacitorReading.Band3 r)) \<and>
    toleranceMap (CapacitorReading.Band4 r) = Some tol \<and> AbsolutePF tol = 0 \<and>
    of_int (Digit (GetColorInfo (CapacitorReading.Band1 r)) * 10 +
            Digit (GetColorInfo (CapacitorReading.Band2 r))) *
      Multiplier (GetColorInfo (CapacitorReading.Band3 r)) \<le> 10 \<longrightarrow>
      ValidateReading r =
        Some \<lparr>BandNumber = 4,
          Message = ColorInfo.Name (GetColorInfo (CapacitorReading.Band4 r)) @
          '' tolerance not typically used for capacitors '' @ lessEqualSign @
          ''10pF (use Brown, Red, Green, or White for absolute tolerance)''\<rparr> \<and>
      (\<exists>out. Calculate r = Inr out \<and> percentageTolerance (CapacitancePF out) tol out))"
proof -
  have small: "toleranceMap c = Some tol \<and> AbsolutePF tol = 0 \<and> pf \<le> 10 \<longrightarrow>
      ValidateBand4 c pf =
        Some \<lparr>BandNumber = 4, Message = ColorInfo.Name (GetColorInfo c) @
          '' tolerance not typically used for capacitors '' @ lessEqualSign @
          ''10pF (use Brown, Red, Green, or White for absolute tolerance)''\<rparr>"
    using ValidateBand4_small [of c tol pf] by blast
  have missing: "toleranceMap c = None \<longrightarrow>
      ValidateBand4 c pf =
        Some \<lparr>BandNumber = 4, Message = ColorInfo.Name (GetColorInfo c) @
          '' is not valid for tolerance band''\<rparr>"
    using ValidateBand4_missing [of c pf] by blast
  have colours: "toleranceMap c = Some tol \<longrightarrow>
      (AbsolutePF tol = 0 \<longleftrightarrow>
         c \<in> set [ColorBlack, ColorOrange, ColorYellow, ColorGold, ColorSilver, ColorGrey])"
    using toleranceMap_cases [of c tol] by (auto simp: Color_defs)
  have reading: "ValidDigit (GetColorInfo (CapacitorReading.Band1 r)) \<and>
    ValidDigit (GetColorInfo (CapacitorReading.Band2 r)) \<and>
    ValidMult (GetColorInfo (CapacitorReading.Band3 r)) \<and>
    toleranceMap (CapacitorReading.Band4 r) = Some tol \<and> AbsolutePF tol = 0 \<and>
    of_int (Digit (GetColorInfo (CapacitorReading.Band1 r)) * 10 +
            Digit (GetColorInfo (CapacitorReading.Band2 r))) *
      Multiplier (GetColorInfo (CapacitorReading.Band3 r)) \<le> 10 \<longrightarrow>
      ValidateReading r =
        Some \<lparr>BandNumber = 4,
          Message = ColorInfo.Name (GetColorInfo (CapacitorReading.Band4 r)) @
          '' tolerance not typically used for capacitors '' @ lessEqualSign @
          ''10pF (use Brown, Red, Green, or White for absolute tolerance)''\<rparr> \<and>
      (\<exists>out. Calculate r = Inr out \<and> percentageTolerance (CapacitancePF out) tol out)"
  proof
    assume a: "ValidDigit (GetColorInfo (CapacitorReading.Band1 r)) \<and>
      ValidDigit (GetColorInfo (CapacitorReading.Band2 r)) \<and>
      ValidMult (GetColorInfo (CapacitorReading.Band3 r)) \<and>
      toleranceMap (CapacitorReading.Band4 r) = Some tol \<and> AbsolutePF tol = 0 \<and>
      of_int (Digit (GetColorInfo (CapacitorReading.Band1 r)) * 10 +
              Digit (GetColorInfo (CapacitorReading.Band2 r))) *
        Multiplier (GetColorInfo (CapacitorReading.Band3 r)) \<le> 10"
    then have v: "ValidDigit (GetColorInfo (CapacitorReading.Band1 r))"
      "ValidDigit (GetColorInfo (CapacitorReading.Band2 r))"
      "ValidMult (GetColorInfo (CapacitorReading.Band3 r))"
      and t: "toleranceMap (CapacitorReading.Band4 r) = Some tol"
      and z: "AbsolutePF tol = 0"
      and le: "of_int (Digit (GetColorInfo (CapacitorReading.Band1 r)) * 10 +
              Digit (GetColorInfo (CapacitorReading.Band2 r))) *
        Multiplier (GetColorInfo (CapacitorReading.Band3 r)) \<le> 10"
      by simp_all
    from ValidateBand4_small [OF t z le] ValidateReading_band4 [OF v]
    have "ValidateReading r =
        Some \<lparr>BandNumber = 4,
          Message = ColorInfo.Name (GetColorInfo (CapacitorReading.Band4 r)) @
          '' tolerance not typically used for capacitors '' @ lessEqualSign @
          ''10pF (use Brown, Red, Green, or White for absolute tolerance)''\<rparr>"
      by blast
    moreover from Calculate_branches [OF v t] z
    have "\<exists>out. Calculate r = Inr out \<and> percentageTolerance (CapacitancePF out) tol out"
      by auto
    ultimately show "ValidateReading r =
        Some \<lparr>BandNumber = 4,
          Message = ColorInfo.Name (GetColorInfo (CapacitorReading.Band4 r)) @
          '' tolerance not typically used for capacitors '' @ lessEqualSign @
          ''10pF (use Brown, Red, Green, or White for absolute tolerance)''\<rparr> \<and>
      (\<exists>out. Calculate r = Inr out \<and> percentageTolerance (CapacitancePF out) tol out)"
      by blast
  qed
  show ?thesis
    apply (intro conjI)
        apply (rule small)
       apply (rule missing)
      apply (rule ValidateBand4_None_iff)
     apply (rule colours)
    apply (rule reading)
    done
qed

theorem ValidateBand4_small_capacitor_witness:
  "ValidateBand4 ColorOrange 10 =
     Some \<lparr>BandNumber = 4, Message = ''Orange tolerance not typically used for capacitors '' @
       lessEqualSign @ ''10pF (use Brown, Red, Green, or White for absolute tolerance)''\<rparr> \<and>
   ValidateBand4 ColorBlue 10 =
     Some \<lparr>BandNumber = 4, Message = ''Blue is not valid for tolerance band''\<rparr> \<and>
   ValidateBand4 ColorBrown 10 = None \<and>
   ValidateBand4 ColorOrange (1001 / 100) = None"
proof -
  let ?o = "\<lparr>PercentHigh = 3, PercentLow = 3, Symmetric = True, AbsolutePF = 0\<rparr>"
  let ?b = "\<lparr>PercentHigh = 1, PercentLow = 1, Symmetric = True, AbsolutePF = 1 / 10\<rparr>"
  have t: "toleranceMap ColorOrange = Some ?o" "toleranceMap ColorBlue = None"
    "toleranceMap ColorBrown = Some ?b"
    by (simp_all add: toleranceMap_def Color_defs)
  have n: "ColorInfo.Name (GetColorInfo ColorOrange) = ''Orange''"
    "ColorInfo.Name (GetColorInfo ColorBlue) = ''Blue''"
    by (simp_all add: GetColorInfo_def colorMap_def Color_defs)
  from ValidateBand4_small_capacitor [of ColorOrange ?o 10] t(1) n(1)
  have a: "ValidateBand4 ColorOrange 10 =
     Some \<lparr>BandNumber = 4, Message = ''Orange tolerance not typically used for capacitors '' @
       lessEqualSign @ ''10pF (use Brown, Red, Green, or White for absolute tolerance)''\<rparr>"
    by simp
  from ValidateBand4_small_capacitor [of ColorBlue _ 10] t(2) n(2)
  have b: "ValidateBand4 ColorBlue 10 =
     Some \<lparr>BandNumber = 4, Message = ''Blue is not valid for tolerance band''\<rparr>"
    by simp
  from ValidateBand4_small_capacitor [of ColorBrown _ 10] t(3)
  have c: "ValidateBand4 ColorBrown 10 = None"
    by simp
  from ValidateBand4_small_capacitor [of ColorOrange _ "1001 / 100"] t(1)
  have d: "ValidateBand4 ColorOrange (1001 / 100) = None"
    by simp
  from a b c d show ?thesis by blast
qed

text \<open>
  The claim as first stated fails: for Black, a table colour without an absolute value, at
  10 pF the validator returns an error, and validating the reading Brown, Black, Black,
  Black fails with it; nothing marks the error as advisory.
\<close>

theorem ValidateBand4_rejects_counterexample:
  "toleranceMap ColorBlack =
     Some \<lparr>PercentHigh = 20, PercentLow = 20, Symmetric = True, AbsolutePF = 0\<rparr> \<and>
   ValidateBand4 ColorBlack 10 =
     Some \<lparr>BandNumber = 4, Message = ''Black tolerance not typically used for capacitors '' @
       lessEqualSign @ ''10pF (use Brown, Red, Green, or White for absolute tolerance)''\<rparr> \<and>
   ValidateReading \<lparr>CapacitorReading.Band1 = ColorBrown, Band2 = ColorBlack,
      Band3 = ColorBlack, Band4 = ColorBlack, Band5 = ColorBlack, BandCount = 4,
      CapType = TypeK\<rparr> =
     Some \<lparr>BandNumber = 4, Message = ''Black tolerance not typically used for capacitors '' @
       lessEqualSign @ ''10pF (use Brown, Red, Green, or White for absolute tolerance)''\<rparr>"
  by (simp add: ValidateReading_def ValidateBand1_def ValidateBand2_def ValidateBand3_def
      ValidateBand4_def GetToleranceInfo_def toleranceMap_def GetColorInfo_def colorMap_def
      Color_defs Let_def)

end
